theory Spec2Isabelle
  imports Complex_Main "HOL-Library.Sublist"
begin

type_synonym error = string

definition squote :: string where
  "squote = [CHR 0x27]"

record unicode =
  unicode_ToLower :: "string \<Rightarrow> string"
  unicode_TrimFunc_IsSpace :: "string \<Rightarrow> string"
  unicode_TrimRightFunc_IsSpace :: "string \<Rightarrow> string"

definition byte :: "char \<Rightarrow> nat" where
  "byte c = of_char c"

definition RuneSelf :: nat where
  "RuneSelf = 128"

definition HasPrefix :: "string \<Rightarrow> string \<Rightarrow> bool" where
  "HasPrefix s pre = (take (length pre) s = pre)"

definition TrimPrefix :: "string \<Rightarrow> string \<Rightarrow> string" where
  "TrimPrefix s pre = (if HasPrefix s pre then drop (length pre) s else s)"

fun Contains :: "string \<Rightarrow> string \<Rightarrow> bool" where
  "Contains [] substr = (substr = [])"
| "Contains (c # s) substr = (HasPrefix (c # s) substr \<or> Contains s substr)"

fun Index :: "string \<Rightarrow> char \<Rightarrow> nat option" where
  "Index [] sep = None"
| "Index (c # s) sep = (if c = sep then Some 0 else map_option Suc (Index s sep))"

definition SplitN_2 :: "string \<Rightarrow> char \<Rightarrow> string list" where
  "SplitN_2 s sep = (case Index s sep of None \<Rightarrow> [s] | Some m \<Rightarrow> [take m s, drop (m + 1) s])"

fun Split_from :: "string \<Rightarrow> char \<Rightarrow> string \<Rightarrow> string list" where
  "Split_from [] sep field = [field]"
| "Split_from (c # s) sep field =
     (if c = sep then field # Split_from s sep [] else Split_from s sep (field @ [c]))"

definition Split :: "string \<Rightarrow> char \<Rightarrow> string list" where
  "Split s sep = Split_from s sep []"

definition asciiSpace :: "char \<Rightarrow> bool" where
  "asciiSpace c = (c = CHR 0x09 \<or> c = CHR 0x0A \<or> c = CHR 0x0B \<or> c = CHR 0x0C \<or> c = CHR 0x0D \<or> c = CHR '' '')"

fun TrimSpace_stop :: "unicode \<Rightarrow> string \<Rightarrow> string" where
  "TrimSpace_stop U s =
     (if s = [] then []
      else if RuneSelf \<le> byte (last s) then unicode_TrimRightFunc_IsSpace U s
      else if asciiSpace (last s) then TrimSpace_stop U (butlast s)
      else s)"

fun TrimSpace :: "unicode \<Rightarrow> string \<Rightarrow> string" where
  "TrimSpace U [] = []"
| "TrimSpace U (c # s) =
     (if RuneSelf \<le> byte c then unicode_TrimFunc_IsSpace U (c # s)
      else if asciiSpace c then TrimSpace U s
      else TrimSpace_stop U (c # s))"

definition lower_byte :: "char \<Rightarrow> char" where
  "lower_byte c = (if byte (CHR ''A'') \<le> byte c \<and> byte c \<le> byte (CHR ''Z'') then char_of (byte c + 32) else c)"

definition ToLower :: "unicode \<Rightarrow> string \<Rightarrow> string" where
  "ToLower U s = (if \<forall>c \<in> set s. byte c < RuneSelf then map lower_byte s else unicode_ToLower U s)"

function Itoa :: "nat \<Rightarrow> string" where
  "Itoa n = (if n < 10 then [char_of (48 + n)] else Itoa (n div 10) @ [char_of (48 + n mod 10)])"
  by pat_completeness auto
termination
  by (relation "measure id") auto

declare Itoa.simps [simp del]

definition encodeStd :: string where
  "encodeStd = ''ABCDEFGHIJKLMNOPQRSTUVWXYZabcdefghijklmnopqrstuvwxyz0123456789+/''"

fun EncodeToString :: "string \<Rightarrow> string" where
  "EncodeToString [] = []"
| "EncodeToString [a] =
     (let val = byte a * 2 ^ 16 in
      [encodeStd ! (val div 2 ^ 18 mod 64), encodeStd ! (val div 2 ^ 12 mod 64), CHR ''='', CHR ''=''])"
| "EncodeToString [a, b] =
     (let val = byte a * 2 ^ 16 + byte b * 2 ^ 8 in
      [encodeStd ! (val div 2 ^ 18 mod 64), encodeStd ! (val div 2 ^ 12 mod 64),
       encodeStd ! (val div 2 ^ 6 mod 64), CHR ''=''])"
| "EncodeToString (a # b # c # src) =
     (let val = byte a * 2 ^ 16 + byte b * 2 ^ 8 + byte c in
      [encodeStd ! (val div 2 ^ 18 mod 64), encodeStd ! (val div 2 ^ 12 mod 64),
       encodeStd ! (val div 2 ^ 6 mod 64), encodeStd ! (val mod 64)] @ EncodeToString src)"

definition decodeMap :: "char \<Rightarrow> nat option" where
  "decodeMap c = Index encodeStd c"

definition CorruptInputError :: "nat \<Rightarrow> error" where
  "CorruptInputError n = ''illegal base64 data at input byte '' @ Itoa n"

definition newline :: "char \<Rightarrow> bool" where
  "newline c = (c = CHR 0x0A \<or> c = CHR 0x0D)"

fun skipNewlines :: "string \<Rightarrow> nat \<Rightarrow> string \<times> nat" where
  "skipNewlines [] si = ([], si)"
| "skipNewlines (c # src) si = (if newline c then skipNewlines src (si + 1) else (c # src, si))"

definition quantum_bytes :: "nat list \<Rightarrow> string" where
  "quantum_bytes dbuf =
     (let d = dbuf @ replicate (4 - length dbuf) 0;
          val = d ! 0 * 2 ^ 18 + d ! 1 * 2 ^ 12 + d ! 2 * 2 ^ 6 + d ! 3
      in take (length dbuf - 1) [char_of (val div 2 ^ 16), char_of (val div 2 ^ 8), char_of val])"

definition Decode_padded :: "string \<Rightarrow> nat \<Rightarrow> nat list \<Rightarrow> string \<Rightarrow> error + string" where
  "Decode_padded src si dbuf dst =
     (case skipNewlines src si of
        ([], si') \<Rightarrow> Inr (dst @ quantum_bytes dbuf)
      | (c # rest, si') \<Rightarrow> Inl (CorruptInputError si'))"

fun Decode_from :: "string \<Rightarrow> nat \<Rightarrow> nat list \<Rightarrow> string \<Rightarrow> error + string" where
  "Decode_from [] si dbuf dst =
     (if dbuf = [] then Inr dst else Inl (CorruptInputError (si - length dbuf)))"
| "Decode_from (c # src) si dbuf dst =
     (case decodeMap c of
        Some out \<Rightarrow>
          (if length dbuf = 3 then Decode_from src (si + 1) [] (dst @ quantum_bytes (dbuf @ [out]))
           else Decode_from src (si + 1) (dbuf @ [out]) dst)
      | None \<Rightarrow>
          if newline c then Decode_from src (si + 1) dbuf dst
          else if c \<noteq> CHR ''='' then Inl (CorruptInputError si)
          else if length dbuf < 2 then Inl (CorruptInputError si)
          else if length dbuf = 2 then
            (case skipNewlines src (si + 1) of
               ([], si') \<Rightarrow> Inl (CorruptInputError si')
             | (c' # rest, si') \<Rightarrow>
                 if c' \<noteq> CHR ''='' then Inl (CorruptInputError (si' - 1))
                 else Decode_padded rest (si' + 1) dbuf dst)
          else Decode_padded src (si + 1) dbuf dst)"

definition StdEncoding_DecodeString :: "string \<Rightarrow> error + string" where
  "StdEncoding_DecodeString s = Decode_from s 0 [] []"

definition parseDataURI :: "unicode \<Rightarrow> string \<Rightarrow> error + string \<times> string" where
  "parseDataURI U dataURI =
     (let parts = SplitN_2 dataURI (CHR '','') in
      if length parts \<noteq> 2 then Inl ''invalid data URI format: missing comma separator''
      else
        let header = parts ! 0; base64Data = parts ! 1 in
        if \<not> HasPrefix header ''data:''
        then Inl (''invalid data URI format: must start with 'data:'' @ squote)
        else
          let headerContent = TrimPrefix header ''data:'';
              encodingParts = SplitN_2 headerContent (CHR '';'');
              mimeType = (if encodingParts ! 0 = [] then ''text/plain'' else encodingParts ! 0);
              isBase64Encoded = (length encodingParts > 1 \<and> ToLower U (encodingParts ! 1) = ''base64'')
          in
            if \<not> isBase64Encoded
            then Inl ''data URI not specified as base64 encoded (e.g., data:image/png;base64,...). Only base64 is supported for file data.''
            else
              (case StdEncoding_DecodeString base64Data of
                 Inl err \<Rightarrow> Inl (''invalid base64 data in data URI: '' @ err)
               | Inr decoded \<Rightarrow> Inr (mimeType, base64Data)))"

record ParsedPart =
  Type :: string
  Value :: string

definition panic_index_out_of_range :: error where
  "panic_index_out_of_range = ''panic: runtime error: index out of range''"

function parseInputParts_loop :: "string list \<Rightarrow> nat \<Rightarrow> ParsedPart list \<Rightarrow> error + ParsedPart list" where
  "parseInputParts_loop args i parts =
     (if i < length args then
        (if i + 1 < length args then
           (let partType = args ! i; partValue = args ! (i + 1) in
            if partType \<noteq> ''text'' \<and> partType \<noteq> ''file''
            then Inl (''invalid part type: '' @ partType @ ''. Must be 'text' or 'file'' @ squote)
            else parseInputParts_loop args (i + 2) (parts @ [\<lparr>Type = partType, Value = partValue\<rparr>]))
         else Inl panic_index_out_of_range)
      else Inr parts)"
  by pat_completeness auto
termination
  by (relation "measure (\<lambda>(args, i, parts). length args - i)") auto

definition parseInputParts :: "string list \<Rightarrow> error + ParsedPart list" where
  "parseInputParts args =
     (if length args mod 2 \<noteq> 0
      then Inl (''input parts must be in pairs of type and value (e.g., text \"hello\")'')
      else parseInputParts_loop args 0 [])"

declare parseInputParts_loop.simps [simp del]

datatype float64 = Finite real | PosInf | NegInf | NaN

definition ge_zero :: "float64 \<Rightarrow> bool" where
  "ge_zero x = (case x of Finite r \<Rightarrow> 0 \<le> r | PosInf \<Rightarrow> True | NegInf \<Rightarrow> False | NaN \<Rightarrow> False)"

definition negative :: "float64 \<Rightarrow> bool" where
  "negative x = (case x of Finite r \<Rightarrow> r < 0 | PosInf \<Rightarrow> False | NegInf \<Rightarrow> True | NaN \<Rightarrow> False)"

record TextPart =
  TextPart_Text :: string

record InlinePart =
  MIMEType :: string
  Data :: string

record Part =
  Text :: "string option"
  InlineData :: "InlinePart option"

record Content =
  Role :: string
  Parts :: "Part list"

record SystemInstruction =
  SystemInstruction_Parts :: "TextPart list"

record SafetySetting =
  Category :: string
  Threshold :: string

record DynamicRetrievalConfig =
  Mode :: string
  DynamicThreshold :: "float64 option"

record GoogleSearchRetrievalConfig =
  DynamicRetrievalConfig :: "DynamicRetrievalConfig option"

record Tool =
  URLContext :: "unit option"
  GoogleSearch :: "unit option"
  GoogleSearchRetrieval :: "GoogleSearchRetrievalConfig option"

record ThinkingConfig =
  ThinkingBudget :: "int option"
  IncludeThoughts :: "bool option"

record GenerationConfig =
  StopSequences :: "string list"
  Temperature :: "float64 option"
  MaxOutputTokens :: "int option"
  TopP :: "float64 option"
  TopK :: "int option"
  ResponseMimeType :: "string option"
  ResponseSchema :: "string option"
  ThinkingConfig :: "ThinkingConfig option"

record GenerateContentRequest =
  SystemInstruction :: "SystemInstruction option"
  Contents :: "Content list"
  Tools :: "Tool list"
  SafetySettings :: "SafetySetting list"
  GenerationConfig :: "GenerationConfig option"

record ModelInfo =
  Name :: string
  Version :: string
  DisplayName :: string
  Description :: string
  InputTokenLimit :: int
  OutputTokenLimit :: int
  SupportedGenerationMethods :: "string list"
  ModelInfo_Temperature :: "float64 option"
  ModelInfo_TopP :: "float64 option"
  ModelInfo_TopK :: "int option"

record GenerationConfigInput =
  in_Temperature :: float64
  in_MaxOutputTokens :: int
  in_TopP :: float64
  in_TopK :: int
  StopSequence :: string
  in_ResponseMimeType :: string
  ResponseSchemaFileOrJSON :: string
  in_ThinkingBudget :: int
  in_IncludeThoughts :: bool

record ToolsInput =
  EnableURLContext :: bool
  EnableGoogleSearch :: bool
  EnableGoogleSearchRetrieval :: bool
  GoogleSearchRetrievalMode :: string
  GoogleSearchRetrievalThreshold :: float64

record ModelOutputInfo =
  out_Name :: string
  out_DisplayName :: string
  out_Version :: string
  out_InputTokenLimit :: int
  out_OutputTokenLimit :: int
  out_SupportedGenerationMethods :: "string list"
  SupportedForTextOutput :: string

record Config =
  APIKey :: string

record http_Response =
  StatusCode :: int
  Status :: string
  ContentType :: string
  Body :: "error + string"

record env =
  uni :: unicode
  DetectContentType :: "string \<Rightarrow> string"
  url_Parse :: "string \<Rightarrow> error + string"
  PathSeparator :: char
  filepath_Join :: "string \<Rightarrow> string \<Rightarrow> string"
  UserConfigDir :: "error + string"
  MkdirAll :: "string \<Rightarrow> error option"
  ReadFile_fault :: "string \<Rightarrow> error option"
  WriteFile_fault :: "string \<Rightarrow> error option"
  json_Marshal :: "GenerateContentRequest \<Rightarrow> error + string"
  json_MarshalIndent_Config :: "Config \<Rightarrow> error + string"
  json_Unmarshal_Config :: "string \<Rightarrow> error + Config"
  json_Unmarshal_ListModelsResponse :: "string \<Rightarrow> error + ModelInfo list"
  json_MarshalIndent_models :: "ModelOutputInfo list \<Rightarrow> error + string"
  http_NewRequest :: "string \<Rightarrow> string \<Rightarrow> error option"
  http_Get :: "string \<Rightarrow> error + http_Response"
  client_Do :: "string \<Rightarrow> string \<Rightarrow> string option \<Rightarrow> error + http_Response"

record world =
  files :: "string \<rightharpoonup> string"
  http_calls :: "(string \<times> string) list"
  stdout :: string
  stderr :: string

definition baseURL :: string where
  "baseURL = ''https://generativelanguage.googleapis.com/v1beta''"

definition panic_nil_dereference :: error where
  "panic_nil_dereference = ''panic: runtime error: invalid memory address or nil pointer dereference''"

definition os_ReadFile :: "env \<Rightarrow> world \<Rightarrow> string \<Rightarrow> error + string" where
  "os_ReadFile E w name =
     (case ReadFile_fault E name of
        Some err \<Rightarrow> Inl err
      | None \<Rightarrow>
          (case files w name of
             None \<Rightarrow> Inl (''open '' @ name @ '': no such file or directory'')
           | Some data \<Rightarrow> Inr data))"

definition os_WriteFile :: "env \<Rightarrow> string \<Rightarrow> string \<Rightarrow> world \<Rightarrow> error option \<times> world" where
  "os_WriteFile E name data w =
     (case WriteFile_fault E name of
        Some err \<Rightarrow> (Some err, w)
      | None \<Rightarrow> (None, w\<lparr>files := (files w)(name \<mapsto> data)\<rparr>))"

definition Printf :: "string \<Rightarrow> world \<Rightarrow> world" where
  "Printf text w = w\<lparr>stdout := stdout w @ text\<rparr>"

definition Fprintf_Stderr :: "string \<Rightarrow> world \<Rightarrow> world" where
  "Fprintf_Stderr text w = w\<lparr>stderr := stderr w @ text\<rparr>"

definition LF :: string where
  "LF = [CHR 0x0A]"

definition IsPathSeparator :: "env \<Rightarrow> char \<Rightarrow> bool" where
  "IsPathSeparator E c = (c = CHR ''/'' \<or> (PathSeparator E = CHR 0x5C \<and> c = CHR 0x5C))"

fun Ext_scan :: "env \<Rightarrow> string \<Rightarrow> string \<Rightarrow> string" where
  "Ext_scan E [] ext = []"
| "Ext_scan E (c # before) ext =
     (if IsPathSeparator E c then []
      else if c = CHR ''.'' then c # ext
      else Ext_scan E before (c # ext))"

definition filepath_Ext :: "env \<Rightarrow> string \<Rightarrow> string" where
  "filepath_Ext E path = Ext_scan E (rev path) []"

definition readFileOrString :: "env \<Rightarrow> world \<Rightarrow> string \<Rightarrow> error + string" where
  "readFileOrString E w pathOrString =
     (if HasPrefix pathOrString ''@'' then
        (let filePath = TrimPrefix pathOrString ''@'' in
         case os_ReadFile E w filePath of
           Inl err \<Rightarrow> Inl (''failed to read file '' @ squote @ filePath @ squote @ '': '' @ err)
         | Inr data \<Rightarrow> Inr data)
      else Inr pathOrString)"

definition readFileAsBase64 :: "env \<Rightarrow> world \<Rightarrow> string \<Rightarrow> error + string \<times> string" where
  "readFileAsBase64 E w filePath =
     (case os_ReadFile E w filePath of
        Inl err \<Rightarrow> Inl (''failed to read file '' @ squote @ filePath @ squote @ '': '' @ err)
      | Inr data \<Rightarrow>
          (let ext = ToLower (uni E) (filepath_Ext E filePath);
               mimeType =
                 (if ext = ''.txt'' then ''text/plain''
                  else if ext = ''.json'' then ''application/json''
                  else if ext = ''.jpg'' \<or> ext = ''.jpeg'' then ''image/jpeg''
                  else if ext = ''.png'' then ''image/png''
                  else if ext = ''.gif'' then ''image/gif''
                  else if ext = ''.webp'' then ''image/webp''
                  else if ext = ''.heic'' then ''image/heic''
                  else if ext = ''.heif'' then ''image/heif''
                  else if ext = ''.pdf'' then ''application/pdf''
                  else if ext = ''.mp3'' then ''audio/mpeg''
                  else if ext = ''.wav'' then ''audio/wav''
                  else if ext = ''.mp4'' then ''video/mp4''
                  else (let detected = DetectContentType E data in
                        if detected = ''application/octet-stream'' then ''application/octet-stream''
                        else detected))
           in Inr (mimeType, EncodeToString data)))"

definition readURLAsBase64 :: "env \<Rightarrow> string \<Rightarrow> world \<Rightarrow> (error + string \<times> string) \<times> world" where
  "readURLAsBase64 E fileURL w =
     (let w1 = w\<lparr>http_calls := http_calls w @ [(''GET'', fileURL)]\<rparr> in
      case http_Get E fileURL of
        Inl err \<Rightarrow> (Inl (''failed to fetch URL '' @ squote @ fileURL @ squote @ '': '' @ err), w1)
      | Inr resp \<Rightarrow>
          if StatusCode resp \<noteq> 200
          then (Inl (''failed to fetch URL '' @ squote @ fileURL @ squote @ '': status '' @ Status resp), w1)
          else
            (case Body resp of
               Inl err \<Rightarrow>
                 (Inl (''failed to read response body from URL '' @ squote @ fileURL @ squote @ '': '' @ err), w1)
             | Inr data \<Rightarrow>
                 (let mimeType = ContentType resp in
                  if mimeType = [] \<or> mimeType = ''application/octet-stream'' \<or> \<not> Contains mimeType ''/''
                  then
                    (case url_Parse E fileURL of
                       Inl err \<Rightarrow> (Inl panic_nil_dereference, w1)
                     | Inr path \<Rightarrow>
                         (let ext = ToLower (uni E) (filepath_Ext E path);
                              pathMime =
                                (if ext = ''.jpg'' \<or> ext = ''.jpeg'' then ''image/jpeg''
                                 else if ext = ''.png'' then ''image/png''
                                 else if ext = ''.gif'' then ''image/gif''
                                 else if ext = ''.webp'' then ''image/webp''
                                 else if ext = ''.pdf'' then ''application/pdf''
                                 else if ext = ''.txt'' then ''text/plain''
                                 else []);
                              detectedMime = DetectContentType E data;
                              mimeType' =
                                (if pathMime \<noteq> [] then pathMime
                                 else if detectedMime \<noteq> ''application/octet-stream'' then detectedMime
                                 else if mimeType = [] then ''application/octet-stream''
                                 else mimeType)
                          in (Inr (mimeType', EncodeToString data), w1)))
                  else (Inr (mimeType, EncodeToString data), w1))))"

definition processFileArgument :: "env \<Rightarrow> string \<Rightarrow> world \<Rightarrow> (error + string \<times> string) \<times> world" where
  "processFileArgument E arg w =
     (if HasPrefix arg ''@'' then (readFileAsBase64 E w (TrimPrefix arg ''@''), w)
      else if HasPrefix arg ''file://'' then
        (case url_Parse E arg of
           Inl err \<Rightarrow> (Inl (''invalid file URI '' @ squote @ arg @ squote @ '': '' @ err), w)
         | Inr path \<Rightarrow>
             (let filePath =
                    (if PathSeparator E = CHR 0x5C \<and> HasPrefix path ''/'' then TrimPrefix path ''/'' else path)
              in (readFileAsBase64 E w filePath, w)))
      else if HasPrefix arg ''http://'' \<or> HasPrefix arg ''https://'' then readURLAsBase64 E arg w
      else if HasPrefix arg ''data:'' then (parseDataURI (uni E) arg, w)
      else (Inl (''unsupported file argument format: '' @ arg @ ''. Use @/path, file://, http(s)://, or data:''), w))"

definition empty_GenerationConfig :: GenerationConfig where
  "empty_GenerationConfig =
     \<lparr>StopSequences = [], Temperature = None, MaxOutputTokens = None, TopP = None, TopK = None,
      ResponseMimeType = None, ResponseSchema = None, ThinkingConfig = None\<rparr>"

definition empty_GenerateContentRequest :: GenerateContentRequest where
  "empty_GenerateContentRequest =
     \<lparr>SystemInstruction = None, Contents = [], Tools = [], SafetySettings = [], GenerationConfig = None\<rparr>"

fun build_parts :: "env \<Rightarrow> ParsedPart list \<Rightarrow> Part list \<Rightarrow> world \<Rightarrow> (error + Part list) \<times> world" where
  "build_parts E [] apiParts w = (Inr apiParts, w)"
| "build_parts E (p # ps) apiParts w =
     (if Type p = ''text'' then
        build_parts E ps (apiParts @ [\<lparr>Text = Some (Value p), InlineData = None\<rparr>]) w
      else if Type p = ''file'' then
        (case processFileArgument E (Value p) w of
           (Inl err, w') \<Rightarrow>
             (Inl (''failed to process file argument '' @ squote @ Value p @ squote @ '': '' @ err), w')
         | (Inr (mimeType, data), w') \<Rightarrow>
             build_parts E ps
               (apiParts @ [\<lparr>Text = None, InlineData = Some \<lparr>MIMEType = mimeType, Data = data\<rparr>\<rparr>]) w')
      else (Inl (''unknown parsed part type: '' @ Type p), w))"

definition build_contents ::
  "env \<Rightarrow> string \<Rightarrow> ParsedPart list \<Rightarrow> world \<Rightarrow> (error + GenerateContentRequest) \<times> world" where
  "build_contents E systemInstructionStr parsedParts w =
     (let req = empty_GenerateContentRequest;
          req = (if systemInstructionStr \<noteq> []
                 then req\<lparr>SystemInstruction :=
                        Some \<lparr>SystemInstruction_Parts = [\<lparr>TextPart_Text = systemInstructionStr\<rparr>]\<rparr>\<rparr>
                 else req)
      in
        if length parsedParts > 0 then
          (case build_parts E parsedParts [] w of
             (Inl err, w') \<Rightarrow> (Inl err, w')
           | (Inr apiParts, w') \<Rightarrow> (Inr (req\<lparr>Contents := [\<lparr>Role = [], Parts = apiParts\<rparr>]\<rparr>), w'))
        else if systemInstructionStr = [] then
          (Inl ''at least one input part or system instruction is required'', w)
        else (Inr req, w))"

definition populate_ThinkingConfig :: "GenerationConfigInput \<Rightarrow> ThinkingConfig option" where
  "populate_ThinkingConfig genConfigInput =
     (let thinkingCfg = \<lparr>ThinkingBudget = None, IncludeThoughts = None\<rparr>;
          thinkingCfgChanged = False;
          (thinkingCfg, thinkingCfgChanged) =
            (if in_ThinkingBudget genConfigInput \<ge> 0
             then (thinkingCfg\<lparr>ThinkingBudget := Some (in_ThinkingBudget genConfigInput)\<rparr>, True)
             else (thinkingCfg, thinkingCfgChanged));
          (thinkingCfg, thinkingCfgChanged) =
            (if in_IncludeThoughts genConfigInput
             then (thinkingCfg\<lparr>IncludeThoughts := Some (in_IncludeThoughts genConfigInput)\<rparr>, True)
             else (thinkingCfg, thinkingCfgChanged))
      in if thinkingCfgChanged then Some thinkingCfg else None)"

definition populate_sampling :: "GenerationConfigInput \<Rightarrow> GenerationConfig \<times> bool" where
  "populate_sampling genConfigInput =
     (let genCfg = empty_GenerationConfig;
          genCfgChanged = False;
          (genCfg, genCfgChanged) =
            (if ge_zero (in_Temperature genConfigInput)
             then (genCfg\<lparr>Temperature := Some (in_Temperature genConfigInput)\<rparr>, True)
             else (genCfg, genCfgChanged));
          (genCfg, genCfgChanged) =
            (if in_MaxOutputTokens genConfigInput \<ge> 0
             then (genCfg\<lparr>MaxOutputTokens := Some (in_MaxOutputTokens genConfigInput)\<rparr>, True)
             else (genCfg, genCfgChanged));
          (genCfg, genCfgChanged) =
            (if ge_zero (in_TopP genConfigInput)
             then (genCfg\<lparr>TopP := Some (in_TopP genConfigInput)\<rparr>, True)
             else (genCfg, genCfgChanged));
          (genCfg, genCfgChanged) =
            (if in_TopK genConfigInput \<ge> 0
             then (genCfg\<lparr>TopK := Some (in_TopK genConfigInput)\<rparr>, True)
             else (genCfg, genCfgChanged));
          (genCfg, genCfgChanged) =
            (if StopSequence genConfigInput \<noteq> []
             then (genCfg\<lparr>StopSequences := [StopSequence genConfigInput]\<rparr>, True)
             else (genCfg, genCfgChanged));
          (genCfg, genCfgChanged) =
            (if in_ResponseMimeType genConfigInput \<noteq> []
             then (genCfg\<lparr>ResponseMimeType := Some (in_ResponseMimeType genConfigInput)\<rparr>, True)
             else (genCfg, genCfgChanged))
      in (genCfg, genCfgChanged))"

definition populate_GenerationConfig ::
  "env \<Rightarrow> world \<Rightarrow> GenerationConfigInput \<Rightarrow> error + GenerationConfig option" where
  "populate_GenerationConfig E w genConfigInput =
     (let (genCfg, genCfgChanged) = populate_sampling genConfigInput in
      case (if ResponseSchemaFileOrJSON genConfigInput \<noteq> []
            then (case readFileOrString E w (ResponseSchemaFileOrJSON genConfigInput) of
                    Inl err \<Rightarrow> Inl (''failed to read response-schema: '' @ err)
                  | Inr schemaContent \<Rightarrow> Inr (genCfg\<lparr>ResponseSchema := Some schemaContent\<rparr>, True))
            else Inr (genCfg, genCfgChanged)) of
        Inl err \<Rightarrow> Inl err
      | Inr (genCfg, genCfgChanged) \<Rightarrow>
          (let (genCfg, genCfgChanged) =
                 (case populate_ThinkingConfig genConfigInput of
                    Some thinkingCfg \<Rightarrow> (genCfg\<lparr>ThinkingConfig := Some thinkingCfg\<rparr>, True)
                  | None \<Rightarrow> (genCfg, genCfgChanged))
           in Inr (if genCfgChanged then Some genCfg else None)))"

definition empty_Tool :: Tool where
  "empty_Tool = \<lparr>URLContext = None, GoogleSearch = None, GoogleSearchRetrieval = None\<rparr>"

definition populate_GoogleSearchRetrieval :: "ToolsInput \<Rightarrow> GoogleSearchRetrievalConfig" where
  "populate_GoogleSearchRetrieval toolsInput =
     (let gsrConfig = \<lparr>DynamicRetrievalConfig = None\<rparr> in
      if GoogleSearchRetrievalMode toolsInput \<noteq> [] \<or> ge_zero (GoogleSearchRetrievalThreshold toolsInput)
      then
        (let dynConfig = \<lparr>Mode = [], DynamicThreshold = None\<rparr>;
             dynConfig = (if GoogleSearchRetrievalMode toolsInput \<noteq> []
                          then dynConfig\<lparr>Mode := GoogleSearchRetrievalMode toolsInput\<rparr> else dynConfig);
             dynConfig = (if ge_zero (GoogleSearchRetrievalThreshold toolsInput)
                          then dynConfig\<lparr>DynamicThreshold := Some (GoogleSearchRetrievalThreshold toolsInput)\<rparr>
                          else dynConfig)
         in gsrConfig\<lparr>DynamicRetrievalConfig := Some dynConfig\<rparr>)
      else gsrConfig)"

definition populate_Tools :: "ToolsInput \<Rightarrow> Tool list" where
  "populate_Tools toolsInput =
     (let tools = [];
          tools = (if EnableURLContext toolsInput then tools @ [empty_Tool\<lparr>URLContext := Some ()\<rparr>] else tools);
          tools = (if EnableGoogleSearch toolsInput then tools @ [empty_Tool\<lparr>GoogleSearch := Some ()\<rparr>] else tools);
          tools = (if EnableGoogleSearchRetrieval toolsInput
                   then tools @ [empty_Tool\<lparr>GoogleSearchRetrieval := Some (populate_GoogleSearchRetrieval toolsInput)\<rparr>]
                   else tools)
      in tools)"

fun safety_pairs :: "unicode \<Rightarrow> string list \<Rightarrow> SafetySetting list \<Rightarrow> error + SafetySetting list" where
  "safety_pairs U [] settings = Inr settings"
| "safety_pairs U (pair # pairs) settings =
     (let parts = SplitN_2 (TrimSpace U pair) (CHR '':'') in
      if length parts = 2 then
        (let category = TrimSpace U (parts ! 0); threshold = TrimSpace U (parts ! 1) in
         if category \<noteq> [] \<and> threshold \<noteq> []
         then safety_pairs U pairs (settings @ [\<lparr>Category = category, Threshold = threshold\<rparr>])
         else Inl (''invalid safety setting pair: '' @ squote @ pair @ squote @ ''. Must be CATEGORY:THRESHOLD''))
      else if TrimSpace U pair \<noteq> [] then
        Inl (''invalid safety setting format: '' @ squote @ pair @ squote @ ''. Must be CATEGORY:THRESHOLD'')
      else safety_pairs U pairs settings)"

definition populate_SafetySettings :: "unicode \<Rightarrow> string \<Rightarrow> error + SafetySetting list" where
  "populate_SafetySettings U safetySettingsStr =
     (if safetySettingsStr \<noteq> [] then safety_pairs U (Split safetySettingsStr (CHR '','')) [] else Inr [])"

definition buildGenerateContentRequest ::
  "env \<Rightarrow> string \<Rightarrow> ParsedPart list \<Rightarrow> GenerationConfigInput \<Rightarrow> ToolsInput \<Rightarrow> string \<Rightarrow> world
     \<Rightarrow> (error + GenerateContentRequest) \<times> world" where
  "buildGenerateContentRequest E systemInstructionStr parsedParts genConfigInput toolsInput safetySettingsStr w =
     (case build_contents E systemInstructionStr parsedParts w of
        (Inl err, w') \<Rightarrow> (Inl err, w')
      | (Inr req, w') \<Rightarrow>
          (case populate_GenerationConfig E w' genConfigInput of
             Inl err \<Rightarrow> (Inl err, w')
           | Inr genCfg \<Rightarrow>
               (let req = req\<lparr>GenerationConfig := genCfg\<rparr>;
                    tools = populate_Tools toolsInput;
                    req = (if length tools > 0 then req\<lparr>Tools := tools\<rparr> else req)
                in case populate_SafetySettings (uni E) safetySettingsStr of
                     Inl err \<Rightarrow> (Inl err, w')
                   | Inr settings \<Rightarrow> (Inr (req\<lparr>SafetySettings := settings\<rparr>), w'))))"

definition makeAPIRequest ::
  "env \<Rightarrow> string \<Rightarrow> string \<Rightarrow> string \<Rightarrow> string option \<Rightarrow> (string \<Rightarrow> error + 'a) option \<Rightarrow> world
     \<Rightarrow> (error + 'a option) \<times> world" where
  "makeAPIRequest E apiKey method endpointURL body target w =
     (let fullURL = baseURL @ endpointURL @ ''?key='' @ apiKey in
      case http_NewRequest E method fullURL of
        Some err \<Rightarrow> (Inl (''failed to create request: '' @ err), w)
      | None \<Rightarrow>
          (let w1 = w\<lparr>http_calls := http_calls w @ [(method, fullURL)]\<rparr> in
           case client_Do E method fullURL body of
             Inl err \<Rightarrow> (Inl (''failed to execute request: '' @ err), w1)
           | Inr resp \<Rightarrow>
               (case Body resp of
                  Inl err \<Rightarrow> (Inl (''failed to read response body: '' @ err), w1)
                | Inr responseBody \<Rightarrow>
                    if StatusCode resp \<noteq> 200
                    then (Inl (''API error: '' @ Status resp @ '', Body: '' @ responseBody), w1)
                    else
                      (case target of
                         Some unmarshal \<Rightarrow>
                           (case unmarshal responseBody of
                              Inl err \<Rightarrow>
                                (Inl (''failed to unmarshal response into target: '' @ err @
                                      ''. Raw response: '' @ responseBody), w1)
                            | Inr v \<Rightarrow> (Inr (Some v), w1))
                       | None \<Rightarrow> (Inr None, Printf (responseBody @ LF) w1)))))"

datatype outcome = Returned | Exit int

definition handleGenerateContent ::
  "env \<Rightarrow> string \<Rightarrow> string \<Rightarrow> string \<Rightarrow> ParsedPart list \<Rightarrow> GenerationConfigInput \<Rightarrow> ToolsInput
     \<Rightarrow> string \<Rightarrow> world \<Rightarrow> outcome \<times> world" where
  "handleGenerateContent E apiKey modelName systemInstructionStr parsedParts genConfigInput toolsInput
       safetySettingsStr w =
     (let modelName = (if \<not> HasPrefix modelName ''models/'' then ''models/'' @ modelName else modelName) in
      case buildGenerateContentRequest E systemInstructionStr parsedParts genConfigInput toolsInput
             safetySettingsStr w of
        (Inl err, w1) \<Rightarrow> (Exit 1, Fprintf_Stderr (''Error building request: '' @ err @ LF) w1)
      | (Inr requestPayload, w1) \<Rightarrow>
          if length (Contents requestPayload) = 0 \<and> SystemInstruction requestPayload = None
          then (Exit 1,
                Fprintf_Stderr (''Error: Request must contain 'contents' or 'system_instruction'.'' @ LF) w1)
          else
            (case json_Marshal E requestPayload of
               Inl err \<Rightarrow> (Exit 1, Fprintf_Stderr (''Error marshalling request to JSON: '' @ err @ LF) w1)
             | Inr jsonData \<Rightarrow>
                 (let endpoint = ''/'' @ modelName @ '':generateContent'' in
                  case makeAPIRequest E apiKey ''POST'' endpoint (Some jsonData)
                         (None :: (string \<Rightarrow> error + unit) option) w1 of
                    (Inl err, w2) \<Rightarrow> (Exit 1, Fprintf_Stderr (''Error making API request: '' @ err @ LF) w2)
                  | (Inr r, w2) \<Rightarrow> (Returned, w2))))"

fun supportsGenContent :: "string list \<Rightarrow> bool" where
  "supportsGenContent [] = False"
| "supportsGenContent (method # methods) =
     (if method = ''generateContent'' then True else supportsGenContent methods)"

definition isTextSupported :: "unicode \<Rightarrow> ModelInfo \<Rightarrow> string" where
  "isTextSupported U m =
     (if supportsGenContent (SupportedGenerationMethods m) then
        (let dnLower = ToLower U (DisplayName m) in
         if Contains dnLower ''tts'' \<or> HasPrefix dnLower ''imagen'' \<or> HasPrefix dnLower ''veo'' \<or>
            Contains dnLower ''embedding''
         then ''No (Specialized: Audio/Image/Video/Embedding)''
         else ''Yes'')
      else ''No'')"

definition processModel :: "unicode \<Rightarrow> ModelInfo \<Rightarrow> ModelOutputInfo" where
  "processModel U m =
     \<lparr>out_Name = Name m, out_DisplayName = DisplayName m, out_Version = Version m,
      out_InputTokenLimit = InputTokenLimit m, out_OutputTokenLimit = OutputTokenLimit m,
      out_SupportedGenerationMethods = SupportedGenerationMethods m,
      SupportedForTextOutput = isTextSupported U m\<rparr>"

fun processedModels :: "unicode \<Rightarrow> ModelInfo list \<Rightarrow> ModelOutputInfo list \<Rightarrow> ModelOutputInfo list" where
  "processedModels U [] processed = processed"
| "processedModels U (m # models) processed = processedModels U models (processed @ [processModel U m])"

definition handleListModels :: "env \<Rightarrow> string \<Rightarrow> world \<Rightarrow> outcome \<times> world" where
  "handleListModels E apiKey w =
     (case makeAPIRequest E apiKey ''GET'' ''/models'' None (Some (json_Unmarshal_ListModelsResponse E)) w of
        (Inl err, w1) \<Rightarrow> (Exit 1, Fprintf_Stderr (''Error listing models: '' @ err @ LF) w1)
      | (Inr response, w1) \<Rightarrow>
          (case json_MarshalIndent_models E (processedModels (uni E) (case response of Some ms \<Rightarrow> ms | None \<Rightarrow> []) []) of
             Inl err \<Rightarrow> (Exit 1, Fprintf_Stderr (''Error marshalling processed model list: '' @ err @ LF) w1)
           | Inr outputData \<Rightarrow> (Returned, Printf (outputData @ LF) w1)))"

definition getConfigPath :: "env \<Rightarrow> error + string" where
  "getConfigPath E =
     (case UserConfigDir E of
        Inl err \<Rightarrow> Inl (''failed to get user config directory: '' @ err)
      | Inr configDir \<Rightarrow>
          (let appConfigDir = filepath_Join E configDir ''gemini-cli'' in
           case MkdirAll E appConfigDir of
             Some err \<Rightarrow> Inl (''failed to create app config directory '' @ appConfigDir @ '': '' @ err)
           | None \<Rightarrow> Inr (filepath_Join E appConfigDir ''config.json'')))"

definition saveAPIKey :: "env \<Rightarrow> string \<Rightarrow> world \<Rightarrow> error option \<times> world" where
  "saveAPIKey E apiKey w =
     (case getConfigPath E of
        Inl err \<Rightarrow> (Some err, w)
      | Inr configPath \<Rightarrow>
          (let config = \<lparr>APIKey = apiKey\<rparr> in
           case json_MarshalIndent_Config E config of
             Inl err \<Rightarrow> (Some (''failed to marshal config: '' @ err), w)
           | Inr data \<Rightarrow>
               (case os_WriteFile E configPath data w of
                  (Some err, w1) \<Rightarrow>
                    (Some (''failed to write config file '' @ configPath @ '': '' @ err), w1)
                | (None, w1) \<Rightarrow> (None, Printf (''API key saved to '' @ configPath @ LF) w1))))"

definition loadAPIKey :: "env \<Rightarrow> world \<Rightarrow> error + string" where
  "loadAPIKey E w =
     (case getConfigPath E of
        Inl err \<Rightarrow> Inl err
      | Inr configPath \<Rightarrow>
          if files w configPath = None
          then Inl (''config file not found at '' @ configPath @ ''. Run 'set-config --key YOUR_KEY' first'')
          else
            (case os_ReadFile E w configPath of
               Inl err \<Rightarrow> Inl (''failed to read config file '' @ configPath @ '': '' @ err)
             | Inr data \<Rightarrow>
                 (case json_Unmarshal_Config E data of
                    Inl err \<Rightarrow> Inl (''failed to unmarshal config from '' @ configPath @ '': '' @ err)
                  | Inr config \<Rightarrow>
                      if APIKey config = []
                      then Inl (''API key not found in config file '' @ configPath @
                                ''. Run 'set-config --key YOUR_KEY'' @ squote)
                      else Inr (APIKey config))))"

definition handleSetConfig :: "env \<Rightarrow> string \<Rightarrow> world \<Rightarrow> outcome \<times> world" where
  "handleSetConfig E apiKey w =
     (case saveAPIKey E apiKey w of
        (Some err, w1) \<Rightarrow> (Exit 1, Fprintf_Stderr (''Error saving API key: '' @ err @ LF) w1)
      | (None, w1) \<Rightarrow> (Returned, w1))"

definition default_GenerationConfigInput :: GenerationConfigInput where
  "default_GenerationConfigInput =
     \<lparr>in_Temperature = Finite (- 1), in_MaxOutputTokens = - 1, in_TopP = Finite (- 1), in_TopK = - 1,
      StopSequence = [], in_ResponseMimeType = [], ResponseSchemaFileOrJSON = [],
      in_ThinkingBudget = - 1, in_IncludeThoughts = False\<rparr>"

definition default_ToolsInput :: ToolsInput where
  "default_ToolsInput =
     \<lparr>EnableURLContext = False, EnableGoogleSearch = False, EnableGoogleSearchRetrieval = False,
      GoogleSearchRetrievalMode = [], GoogleSearchRetrievalThreshold = Finite (- 1)\<rparr>"

definition example_unicode :: unicode where
  "example_unicode =
     \<lparr>unicode_ToLower = (\<lambda>s. s), unicode_TrimFunc_IsSpace = (\<lambda>s. s),
      unicode_TrimRightFunc_IsSpace = (\<lambda>s. s)\<rparr>"

definition example_MarshalIndent_Config :: "Config \<Rightarrow> error + string" where
  "example_MarshalIndent_Config config =
     Inr (''{'' @ LF @ ''  \"api_key\": \"'' @ APIKey config @ ''\"'' @ LF @ ''}'')"

definition example_Unmarshal_Config :: "string \<Rightarrow> error + Config" where
  "example_Unmarshal_Config data =
     (let opening = ''{'' @ LF @ ''  \"api_key\": \"''; closing = ''\"'' @ LF @ ''}'' in
      if HasPrefix data opening \<and> HasPrefix (rev data) (rev closing) \<and>
         length opening + length closing \<le> length data
      then Inr \<lparr>APIKey = take (length data - length opening - length closing) (drop (length opening) data)\<rparr>
      else Inl ''invalid character looking for beginning of value'')"

definition example_env :: env where
  "example_env =
     \<lparr>uni = example_unicode,
      DetectContentType = (\<lambda>data. ''application/octet-stream''),
      url_Parse = (\<lambda>rawURL. Inl ''parse: invalid URI''),
      PathSeparator = CHR ''/'',
      filepath_Join = (\<lambda>dir name. dir @ ''/'' @ name),
      UserConfigDir = Inr ''/home/user/.config'',
      MkdirAll = (\<lambda>path. None),
      ReadFile_fault = (\<lambda>name. None),
      WriteFile_fault = (\<lambda>name. None),
      json_Marshal = (\<lambda>req. Inl ''json: unsupported value''),
      json_MarshalIndent_Config = example_MarshalIndent_Config,
      json_Unmarshal_Config = example_Unmarshal_Config,
      json_Unmarshal_ListModelsResponse = (\<lambda>data. Inl ''unexpected end of JSON input''),
      json_MarshalIndent_models = (\<lambda>models. Inl ''json: unsupported value''),
      http_NewRequest = (\<lambda>method url. None),
      http_Get = (\<lambda>url. Inl ''dial tcp: network is unreachable''),
      client_Do = (\<lambda>method url body. Inl ''dial tcp: network is unreachable'')\<rparr>"

definition empty_world :: world where
  "empty_world = \<lparr>files = Map.empty, http_calls = [], stdout = [], stderr = []\<rparr>"

definition no_input_error :: error where
  "no_input_error = ''at least one input part or system instruction is required''"

definition part_at :: "string list \<Rightarrow> nat \<Rightarrow> ParsedPart" where
  "part_at args k = \<lparr>Type = args ! (2 * k), Value = args ! (2 * k + 1)\<rparr>"

definition specialized :: string where
  "specialized = ''No (Specialized: Audio/Image/Video/Embedding)''"

definition example_model :: "string \<Rightarrow> string list \<Rightarrow> ModelInfo" where
  "example_model displayName methods =
     \<lparr>Name = ''models/example'', Version = ''001'', DisplayName = displayName, Description = [],
      InputTokenLimit = 1048576, OutputTokenLimit = 8192, SupportedGenerationMethods = methods,
      ModelInfo_Temperature = None, ModelInfo_TopP = None, ModelInfo_TopK = None\<rparr>"

definition fullURL :: "string \<Rightarrow> string \<Rightarrow> string" where
  "fullURL apiKey endpointURL = baseURL @ endpointURL @ ''?key='' @ apiKey"

definition API_error :: "http_Response \<Rightarrow> string \<Rightarrow> error" where
  "API_error resp responseBody = ''API error: '' @ Status resp @ '', Body: '' @ responseBody"

definition example_response :: "int \<Rightarrow> string \<Rightarrow> string \<Rightarrow> http_Response" where
  "example_response code status body =
     \<lparr>StatusCode = code, Status = status, ContentType = ''application/json'', Body = Inr body\<rparr>"

definition example_env_answering :: "http_Response \<Rightarrow> env" where
  "example_env_answering resp = example_env\<lparr>client_Do := (\<lambda>method url body. Inr resp)\<rparr>"

lemma parseInputParts_loop_ok:
  assumes "even (length args)" and "even i" and "i \<le> length args"
    and "\<forall>j<length args. i \<le> j \<and> even j \<longrightarrow> args ! j = ''text'' \<or> args ! j = ''file''"
  shows "parseInputParts_loop args i parts =
           Inr (parts @ map (part_at args) [i div 2 ..< length args div 2])"
  using assms
proof (induction args i parts rule: parseInputParts_loop.induct)
  case (1 args i parts)
  show ?case
  proof (cases "i < length args")
    case False
    with "1.prems" have "i = length args" by simp
    then show ?thesis
      by (subst parseInputParts_loop.simps) simp
  next
    case True
    from True "1.prems" have next_in: "i + 1 < length args"
      by (metis Suc_eq_plus1 Suc_lessI even_Suc)
    from True "1.prems" have ty: "args ! i = ''text'' \<or> args ! i = ''file''"
      by simp
    have step: "parseInputParts_loop args i parts =
        parseInputParts_loop args (i + 2) (parts @ [\<lparr>Type = args ! i, Value = args ! (i + 1)\<rparr>])"
      using True next_in ty
      by (subst parseInputParts_loop.simps) (auto simp: Let_def)
    have ih: "parseInputParts_loop args (i + 2) (parts @ [\<lparr>Type = args ! i, Value = args ! (i + 1)\<rparr>]) =
        Inr ((parts @ [\<lparr>Type = args ! i, Value = args ! (i + 1)\<rparr>]) @
             map (part_at args) [(i + 2) div 2 ..< length args div 2])"
    proof (rule "1.IH" [OF True next_in refl refl])
      show "\<not> (args ! i \<noteq> ''text'' \<and> args ! i \<noteq> ''file'')" using ty by simp
      show "even (length args)" by (rule "1.prems")
      show "even (i + 2)" using "1.prems" by simp
      show "i + 2 \<le> length args" using next_in by simp
      show "\<forall>j<length args. i + 2 \<le> j \<and> even j \<longrightarrow> args ! j = ''text'' \<or> args ! j = ''file''"
        using "1.prems" by simp
    qed
    have half: "i div 2 < length args div 2"
      using True "1.prems" by (elim evenE) simp
    have here: "part_at args (i div 2) = \<lparr>Type = args ! i, Value = args ! (i + 1)\<rparr>"
      using "1.prems" by (simp add: part_at_def)
    have "[i div 2 ..< length args div 2] = (i div 2) # [(i + 2) div 2 ..< length args div 2]"
      using half by (simp add: upt_conv_Cons)
    with step ih here show ?thesis by simp
  qed
qed

lemma parseInputParts_loop_bad:
  assumes "even (length args)" and "even i" and "i \<le> j" and "j < length args" and "even j"
    and "args ! j \<noteq> ''text''" and "args ! j \<noteq> ''file''"
  shows "isl (parseInputParts_loop args i parts)"
  using assms
proof (induction args i parts rule: parseInputParts_loop.induct)
  case (1 args i parts)
  from "1.prems" have in_range: "i < length args" by simp
  with "1.prems" have next_in: "i + 1 < length args"
    by (metis Suc_eq_plus1 Suc_lessI even_Suc)
  show ?case
  proof (cases "args ! i \<noteq> ''text'' \<and> args ! i \<noteq> ''file''")
    case True
    then show ?thesis
      using in_range next_in
      by (subst parseInputParts_loop.simps) (simp add: Let_def)
  next
    case False
    with "1.prems" have "i \<noteq> j" by auto
    with "1.prems" have later: "i + 2 \<le> j"
      by (metis Suc_eq_plus1 Suc_leI add_2_eq_Suc' even_Suc le_neq_implies_less)
    have step: "parseInputParts_loop args i parts =
        parseInputParts_loop args (i + 2) (parts @ [\<lparr>Type = args ! i, Value = args ! (i + 1)\<rparr>])"
      using in_range next_in False
      by (subst parseInputParts_loop.simps) (auto simp: Let_def)
    have "isl (parseInputParts_loop args (i + 2) (parts @ [\<lparr>Type = args ! i, Value = args ! (i + 1)\<rparr>]))"
      using "1.prems" later
      by (intro "1.IH" [OF in_range next_in refl refl False]) simp_all
    with step show ?thesis by simp
  qed
qed

lemma parseInputParts_loop_no_panic:
  assumes "even (length args)" and "even i"
  shows "parseInputParts_loop args i parts \<noteq> Inl panic_index_out_of_range"
  using assms
proof (induction args i parts rule: parseInputParts_loop.induct)
  case (1 args i parts)
  show ?case
  proof (cases "i < length args")
    case False
    then show ?thesis by (subst parseInputParts_loop.simps) simp
  next
    case True
    with "1.prems" have next_in: "i + 1 < length args"
      by (metis Suc_eq_plus1 Suc_lessI even_Suc)
    show ?thesis
    proof (cases "args ! i \<noteq> ''text'' \<and> args ! i \<noteq> ''file''")
      case bad: True
      then show ?thesis
        using True next_in
        by (subst parseInputParts_loop.simps) (simp add: Let_def panic_index_out_of_range_def)
    next
      case False
      have "parseInputParts_loop args (i + 2) (parts @ [\<lparr>Type = args ! i, Value = args ! (i + 1)\<rparr>])
              \<noteq> Inl panic_index_out_of_range"
        using "1.prems" by (intro "1.IH" [OF True next_in refl refl False]) simp_all
      then show ?thesis
        using True next_in False
        by (subst parseInputParts_loop.simps) (auto simp: Let_def)
    qed
  qed
qed

text \<open>
  C5. For every argument list: when its length is even and every element at an even
  index is \<open>text\<close> or \<open>file\<close>, \<open>parseInputParts\<close> succeeds and returns the pairs
  \<open>(args[2k], args[2k+1])\<close> in input order, one per argument pair (so half as many as
  arguments); when its length is odd it fails; when some element at an even index is
  neither \<open>text\<close> nor \<open>file\<close> it fails, wherever that element stands. The parser never
  reads out of range.
\<close>

theorem parseInputParts_pairs:
  "(even (length args) \<and>
      (\<forall>i<length args. even i \<longrightarrow> args ! i = ''text'' \<or> args ! i = ''file'') \<longrightarrow>
        parseInputParts args = Inr (map (part_at args) [0 ..< length args div 2]) \<and>
        length (projr (parseInputParts args)) = length args div 2)
   \<and> (odd (length args) \<longrightarrow> isl (parseInputParts args))
   \<and> ((\<exists>i<length args. even i \<and> args ! i \<noteq> ''text'' \<and> args ! i \<noteq> ''file'') \<longrightarrow>
        isl (parseInputParts args))
   \<and> parseInputParts args \<noteq> Inl panic_index_out_of_range"
proof (intro conjI impI)
  assume ok: "even (length args) \<and>
      (\<forall>i<length args. even i \<longrightarrow> args ! i = ''text'' \<or> args ! i = ''file'')"
  then have "parseInputParts_loop args 0 [] = Inr ([] @ map (part_at args) [0 div 2 ..< length args div 2])"
    by (intro parseInputParts_loop_ok) simp_all
  with ok show res: "parseInputParts args = Inr (map (part_at args) [0 ..< length args div 2])"
    by (simp add: parseInputParts_def even_iff_mod_2_eq_zero)
  show "length (projr (parseInputParts args)) = length args div 2"
    by (simp add: res)
next
  assume "odd (length args)"
  then show "isl (parseInputParts args)"
    by (simp add: parseInputParts_def odd_iff_mod_2_eq_one)
next
  assume "\<exists>i<length args. even i \<and> args ! i \<noteq> ''text'' \<and> args ! i \<noteq> ''file''"
  then obtain j where j: "j < length args" "even j" "args ! j \<noteq> ''text''" "args ! j \<noteq> ''file''"
    by blast
  show "isl (parseInputParts args)"
  proof (cases "even (length args)")
    case True
    then have "isl (parseInputParts_loop args 0 [])"
      using j by (intro parseInputParts_loop_bad [where j = j]) simp_all
    with True show ?thesis
      by (simp add: parseInputParts_def even_iff_mod_2_eq_zero)
  next
    case False
    then show ?thesis
      by (simp add: parseInputParts_def odd_iff_mod_2_eq_one)
  qed
next
  show "parseInputParts args \<noteq> Inl panic_index_out_of_range"
  proof (cases "even (length args)")
    case True
    then have "parseInputParts_loop args 0 [] \<noteq> Inl panic_index_out_of_range"
      by (intro parseInputParts_loop_no_panic) simp_all
    with True show ?thesis
      by (simp add: parseInputParts_def even_iff_mod_2_eq_zero)
  next
    case False
    then show ?thesis
      by (simp add: parseInputParts_def odd_iff_mod_2_eq_one panic_index_out_of_range_def)
  qed
qed

theorem parseInputParts_pairs_witness:
  "parseInputParts [''text'', ''hello'', ''file'', ''@a.png''] =
      Inr [\<lparr>Type = ''text'', Value = ''hello''\<rparr>, \<lparr>Type = ''file'', Value = ''@a.png''\<rparr>]
   \<and> isl (parseInputParts [''text'', ''hello'', ''file''])
   \<and> isl (parseInputParts [''text'', ''hello'', ''image'', ''@a.png''])"
proof -
  let ?ok = "[''text'', ''hello'', ''file'', ''@a.png'']"
  let ?bad = "[''text'', ''hello'', ''image'', ''@a.png'']"
  have h1: "even (length ?ok) \<and>
      (\<forall>i<length ?ok. even i \<longrightarrow> ?ok ! i = ''text'' \<or> ?ok ! i = ''file'')"
    by (auto simp: less_Suc_eq)
  have h3: "\<exists>i<length ?bad. even i \<and> ?bad ! i \<noteq> ''text'' \<and> ?bad ! i \<noteq> ''file''"
    by (rule exI [of _ 2]) simp
  have up: "[0..<length ?ok div 2] = [0, 1]" by (simp add: upt_rec)
  show ?thesis
    using parseInputParts_pairs [of ?ok] parseInputParts_pairs [of "[''text'', ''hello'', ''file'']"]
      parseInputParts_pairs [of ?bad] h1 h3
    unfolding up by (simp add: part_at_def)
qed

lemma build_parts_error:
  "build_parts E ps apiParts w = (Inl err, w') \<Longrightarrow> err \<noteq> no_input_error"
proof (induction ps arbitrary: apiParts w)
  case Nil
  then show ?case by simp
next
  case (Cons p ps)
  then show ?case
    by (auto simp: no_input_error_def split: if_splits prod.splits sum.splits)
qed

lemma build_contents_empty:
  "build_contents E [] [] w = (Inl no_input_error, w)"
  by (simp add: build_contents_def no_input_error_def)

lemma build_contents_nonempty:
  assumes "parsedParts \<noteq> [] \<or> systemInstructionStr \<noteq> []"
  shows "fst (build_contents E systemInstructionStr parsedParts w) \<noteq> Inl no_input_error"
proof (cases "parsedParts = []")
  case True
  with assms show ?thesis by (simp add: build_contents_def Let_def)
next
  case False
  then show ?thesis
    by (auto simp: build_contents_def Let_def split: prod.splits sum.splits dest: build_parts_error)
qed

lemma populate_GenerationConfig_error:
  "populate_GenerationConfig E w g = Inl err \<Longrightarrow> err \<noteq> no_input_error"
  by (cases "populate_sampling g")
    (auto simp: populate_GenerationConfig_def no_input_error_def split: if_splits sum.splits option.splits)

lemma safety_pairs_error:
  "safety_pairs U pairs settings = Inl err \<Longrightarrow> err \<noteq> no_input_error"
proof (induction pairs arbitrary: settings)
  case Nil
  then show ?case by simp
next
  case (Cons pair pairs)
  then show ?case
    by (auto simp: Let_def no_input_error_def split: if_splits)
qed

lemma populate_SafetySettings_error:
  "populate_SafetySettings U s = Inl err \<Longrightarrow> err \<noteq> no_input_error"
  by (auto simp: populate_SafetySettings_def split: if_splits dest: safety_pairs_error)

lemma build_empty:
  "buildGenerateContentRequest E [] [] g t s w = (Inl no_input_error, w)"
  by (simp add: buildGenerateContentRequest_def build_contents_empty)

lemma build_nonempty:
  assumes "parsedParts \<noteq> [] \<or> systemInstructionStr \<noteq> []"
  shows "fst (buildGenerateContentRequest E systemInstructionStr parsedParts g t s w) \<noteq> Inl no_input_error"
proof -
  obtain r w' where bc: "build_contents E systemInstructionStr parsedParts w = (r, w')"
    by (cases "build_contents E systemInstructionStr parsedParts w")
  with build_contents_nonempty [OF assms, of E w] have r: "r \<noteq> Inl no_input_error" by simp
  show ?thesis
  proof (cases r)
    case (Inl e)
    with bc r show ?thesis by (simp add: buildGenerateContentRequest_def)
  next
    case (Inr req)
    with bc show ?thesis
      by (auto simp: buildGenerateContentRequest_def Let_def split: sum.splits
          dest: populate_GenerationConfig_error populate_SafetySettings_error)
  qed
qed

lemma handle_empty:
  "handleGenerateContent E apiKey modelName [] [] g t s w =
     (Exit 1, Fprintf_Stderr (''Error building request: '' @ no_input_error @ LF) w)"
  by (simp add: handleGenerateContent_def build_empty Let_def)

text \<open>
  C1. For every system instruction, part list, generation parameters, tool toggles and
  safety string, in every environment: with no part and an empty system instruction,
  \<open>buildGenerateContentRequest\<close> returns the validation error and no request, leaves
  the world as it was, and \<open>handleGenerateContent\<close> exits with status 1 after printing
  that error, with no call to the HTTP client; with at least one part or a non-empty
  system instruction, whatever else the builder returns, it is not this validation error.
\<close>

theorem empty_request_rejected:
  "(parsedParts = [] \<and> systemInstructionStr = [] \<longrightarrow>
      buildGenerateContentRequest E systemInstructionStr parsedParts g t s w = (Inl no_input_error, w)
      \<and> handleGenerateContent E apiKey modelName systemInstructionStr parsedParts g t s w =
          (Exit 1, Fprintf_Stderr (''Error building request: '' @ no_input_error @ LF) w)
      \<and> http_calls (snd (handleGenerateContent E apiKey modelName systemInstructionStr parsedParts g t s w))
          = http_calls w)
   \<and> (parsedParts \<noteq> [] \<or> systemInstructionStr \<noteq> [] \<longrightarrow>
      fst (buildGenerateContentRequest E systemInstructionStr parsedParts g t s w) \<noteq> Inl no_input_error)"
  using build_nonempty [of parsedParts systemInstructionStr E g t s w]
  by (auto simp: build_empty handle_empty Fprintf_Stderr_def)


theorem empty_request_rejected_witness:
  "buildGenerateContentRequest example_env [] [] default_GenerationConfigInput default_ToolsInput []
       empty_world = (Inl no_input_error, empty_world)
   \<and> handleGenerateContent example_env ''KEY'' ''gemini-2.5-pro'' [] [] default_GenerationConfigInput
       default_ToolsInput [] empty_world =
         (Exit 1, Fprintf_Stderr (''Error building request: '' @ no_input_error @ LF) empty_world)
   \<and> http_calls (snd (handleGenerateContent example_env ''KEY'' ''gemini-2.5-pro'' [] []
       default_GenerationConfigInput default_ToolsInput [] empty_world)) = []
   \<and> fst (buildGenerateContentRequest example_env ''Be brief.'' [] default_GenerationConfigInput
       default_ToolsInput [] empty_world) \<noteq> Inl no_input_error
   \<and> fst (buildGenerateContentRequest example_env [] [\<lparr>Type = ''text'', Value = ''hello''\<rparr>]
       default_GenerationConfigInput default_ToolsInput [] empty_world) \<noteq> Inl no_input_error"
  using empty_request_rejected [of "[]" "[]" example_env default_GenerationConfigInput
      default_ToolsInput "[]" empty_world "''KEY''" "''gemini-2.5-pro''"]
    empty_request_rejected [of "[]" "''Be brief.''" example_env default_GenerationConfigInput
      default_ToolsInput "[]" empty_world]
    empty_request_rejected [of "[\<lparr>Type = ''text'', Value = ''hello''\<rparr>]" "[]" example_env
      default_GenerationConfigInput default_ToolsInput "[]" empty_world]
  by (simp add: empty_world_def Fprintf_Stderr_def)

lemma populate_sampling_fields:
  "populate_sampling g =
     (\<lparr>StopSequences = (if StopSequence g \<noteq> [] then [StopSequence g] else []),
       Temperature = (if ge_zero (in_Temperature g) then Some (in_Temperature g) else None),
       MaxOutputTokens = (if in_MaxOutputTokens g \<ge> 0 then Some (in_MaxOutputTokens g) else None),
       TopP = (if ge_zero (in_TopP g) then Some (in_TopP g) else None),
       TopK = (if in_TopK g \<ge> 0 then Some (in_TopK g) else None),
       ResponseMimeType = (if in_ResponseMimeType g \<noteq> [] then Some (in_ResponseMimeType g) else None),
       ResponseSchema = None,
       ThinkingConfig = None\<rparr>,
      ge_zero (in_Temperature g) \<or> in_MaxOutputTokens g \<ge> 0 \<or> ge_zero (in_TopP g) \<or> in_TopK g \<ge> 0 \<or>
      StopSequence g \<noteq> [] \<or> in_ResponseMimeType g \<noteq> [])"
  by (cases "ge_zero (in_Temperature g)"; cases "in_MaxOutputTokens g \<ge> 0"; cases "ge_zero (in_TopP g)";
      cases "in_TopK g \<ge> 0"; cases "StopSequence g = []"; cases "in_ResponseMimeType g = []";
      simp add: populate_sampling_def empty_GenerationConfig_def)

lemma populate_ThinkingConfig_fields:
  "populate_ThinkingConfig g =
     (if in_ThinkingBudget g \<ge> 0 \<or> in_IncludeThoughts g
      then Some \<lparr>ThinkingBudget = (if in_ThinkingBudget g \<ge> 0 then Some (in_ThinkingBudget g) else None),
                 IncludeThoughts = (if in_IncludeThoughts g then Some True else None)\<rparr>
      else None)"
  by (cases "in_ThinkingBudget g \<ge> 0"; cases "in_IncludeThoughts g"; simp add: populate_ThinkingConfig_def)

lemma negative_not_ge_zero: "negative x \<Longrightarrow> \<not> ge_zero x"
  by (cases x) (simp_all add: negative_def ge_zero_def)

lemma ge_zero_Finite: "ge_zero (Finite r) = (0 \<le> r)"
  by (simp add: ge_zero_def)

lemma build_GenerationConfig:
  assumes "buildGenerateContentRequest E sys parts g t s w = (Inr req, w')"
  shows "populate_GenerationConfig E w' g = Inr (GenerationConfig req)"
proof -
  obtain r w1 where bc: "build_contents E sys parts w = (r, w1)"
    by (cases "build_contents E sys parts w")
  show ?thesis
  proof (cases r)
    case (Inl e)
    with bc assms show ?thesis by (simp add: buildGenerateContentRequest_def)
  next
    case (Inr req0)
    with bc assms show ?thesis
      by (auto simp: buildGenerateContentRequest_def Let_def split: sum.splits if_splits)
  qed
qed

lemma populate_unset:
  assumes "negative (in_Temperature g)" "in_MaxOutputTokens g < 0" "negative (in_TopP g)" "in_TopK g < 0"
    "in_ThinkingBudget g < 0" "StopSequence g = []" "in_ResponseMimeType g = []"
    "ResponseSchemaFileOrJSON g = []" "\<not> in_IncludeThoughts g"
  shows "populate_GenerationConfig E w g = Inr None"
  using assms
  by (simp add: populate_GenerationConfig_def populate_sampling_fields populate_ThinkingConfig_fields
      negative_not_ge_zero)

lemma populate_temperature_topK:
  assumes "in_Temperature g = Finite 0.7" "in_TopK g = 40" "in_MaxOutputTokens g < 0" "negative (in_TopP g)"
    "in_ThinkingBudget g < 0" "StopSequence g = []" "in_ResponseMimeType g = []"
    "ResponseSchemaFileOrJSON g = []" "\<not> in_IncludeThoughts g"
  shows "populate_GenerationConfig E w g =
           Inr (Some (empty_GenerationConfig\<lparr>Temperature := Some (Finite 0.7), TopK := Some 40\<rparr>))"
  using assms
  by (simp add: populate_GenerationConfig_def populate_sampling_fields populate_ThinkingConfig_fields
      negative_not_ge_zero ge_zero_Finite empty_GenerationConfig_def)

lemma populate_sampling_ThinkingConfig:
  "ThinkingConfig (fst (populate_sampling g)) = None"
  by (simp add: populate_sampling_fields)

lemma populate_thinking:
  assumes "populate_GenerationConfig E w g = Inr genCfg"
  shows "(case genCfg of None \<Rightarrow> None | Some gc \<Rightarrow> ThinkingConfig gc) = populate_ThinkingConfig g"
proof -
  obtain c0 ch0 where ps: "populate_sampling g = (c0, ch0)"
    by (cases "populate_sampling g")
  from populate_sampling_ThinkingConfig [of g] ps have none: "ThinkingConfig c0 = None"
    by simp
  show ?thesis
  proof (cases "populate_ThinkingConfig g")
    case None
    with assms ps none show ?thesis
      by (auto simp: populate_GenerationConfig_def split: if_splits sum.splits)
  next
    case (Some tc)
    with assms ps show ?thesis
      by (auto simp: populate_GenerationConfig_def split: if_splits sum.splits)
  qed
qed


lemma build_system_instruction_only:
  assumes "sys \<noteq> []" and "populate_GenerationConfig E w g = Inr genCfg"
  shows "buildGenerateContentRequest E sys [] g default_ToolsInput [] w =
           (Inr \<lparr>SystemInstruction = Some \<lparr>SystemInstruction_Parts = [\<lparr>TextPart_Text = sys\<rparr>]\<rparr>,
                  Contents = [], Tools = [], SafetySettings = [], GenerationConfig = genCfg\<rparr>, w)"
  using assms
  by (simp add: buildGenerateContentRequest_def build_contents_def empty_GenerateContentRequest_def
      populate_Tools_def default_ToolsInput_def populate_SafetySettings_def)

text \<open>
  C2. For every generation-parameter input: with temperature, maxOutputTokens, topP,
  topK and the thinking budget negative, the three strings empty and includeThoughts
  false, a built request has no generation block; with exactly temperature 0.7 and
  topK 40 set (the rest unset as before), the generation block holds these two fields
  and nothing else; and whenever a request is built, the thinking sub-block is present
  -- inside a generation block that is then present too -- exactly when the thinking
  budget is non-negative or includeThoughts is true, and it then holds just the
  sub-fields that are set.
\<close>

theorem generation_block:
  "(negative (in_Temperature g) \<and> in_MaxOutputTokens g < 0 \<and> negative (in_TopP g) \<and> in_TopK g < 0 \<and>
    in_ThinkingBudget g < 0 \<and> StopSequence g = [] \<and> in_ResponseMimeType g = [] \<and>
    ResponseSchemaFileOrJSON g = [] \<and> \<not> in_IncludeThoughts g \<longrightarrow>
      populate_GenerationConfig E w g = Inr None \<and>
      (\<forall>req w'. buildGenerateContentRequest E sys parts g t s w = (Inr req, w') \<longrightarrow>
         GenerationConfig req = None))
   \<and> (in_Temperature g = Finite 0.7 \<and> in_TopK g = 40 \<and> in_MaxOutputTokens g < 0 \<and> negative (in_TopP g) \<and>
    in_ThinkingBudget g < 0 \<and> StopSequence g = [] \<and> in_ResponseMimeType g = [] \<and>
    ResponseSchemaFileOrJSON g = [] \<and> \<not> in_IncludeThoughts g \<longrightarrow>
      populate_GenerationConfig E w g =
        Inr (Some (empty_GenerationConfig\<lparr>Temperature := Some (Finite 0.7), TopK := Some 40\<rparr>)) \<and>
      (\<forall>req w'. buildGenerateContentRequest E sys parts g t s w = (Inr req, w') \<longrightarrow>
         GenerationConfig req =
           Some (empty_GenerationConfig\<lparr>Temperature := Some (Finite 0.7), TopK := Some 40\<rparr>)))
   \<and> (\<forall>req w'. buildGenerateContentRequest E sys parts g t s w = (Inr req, w') \<longrightarrow>
         ((\<exists>gc. GenerationConfig req = Some gc \<and> ThinkingConfig gc \<noteq> None) \<longleftrightarrow>
            (in_ThinkingBudget g \<ge> 0 \<or> in_IncludeThoughts g)) \<and>
         (in_ThinkingBudget g \<ge> 0 \<or> in_IncludeThoughts g \<longrightarrow>
            (\<exists>gc. GenerationConfig req = Some gc \<and>
               ThinkingConfig gc =
                 Some \<lparr>ThinkingBudget = (if in_ThinkingBudget g \<ge> 0 then Some (in_ThinkingBudget g) else None),
                       IncludeThoughts = (if in_IncludeThoughts g then Some True else None)\<rparr>)))"
proof (intro conjI impI allI)
  assume unset: "negative (in_Temperature g) \<and> in_MaxOutputTokens g < 0 \<and> negative (in_TopP g) \<and>
    in_TopK g < 0 \<and> in_ThinkingBudget g < 0 \<and> StopSequence g = [] \<and> in_ResponseMimeType g = [] \<and>
    ResponseSchemaFileOrJSON g = [] \<and> \<not> in_IncludeThoughts g"
  then show "populate_GenerationConfig E w g = Inr None"
    by (intro populate_unset) simp_all
  fix req w'
  assume "buildGenerateContentRequest E sys parts g t s w = (Inr req, w')"
  then have "populate_GenerationConfig E w' g = Inr (GenerationConfig req)"
    by (rule build_GenerationConfig)
  moreover from unset have "populate_GenerationConfig E w' g = Inr None"
    by (intro populate_unset) simp_all
  ultimately show "GenerationConfig req = None" by simp
next
  assume two: "in_Temperature g = Finite 0.7 \<and> in_TopK g = 40 \<and> in_MaxOutputTokens g < 0 \<and>
    negative (in_TopP g) \<and> in_ThinkingBudget g < 0 \<and> StopSequence g = [] \<and> in_ResponseMimeType g = [] \<and>
    ResponseSchemaFileOrJSON g = [] \<and> \<not> in_IncludeThoughts g"
  then show "populate_GenerationConfig E w g =
      Inr (Some (empty_GenerationConfig\<lparr>Temperature := Some (Finite 0.7), TopK := Some 40\<rparr>))"
    by (intro populate_temperature_topK) simp_all
  fix req w'
  assume "buildGenerateContentRequest E sys parts g t s w = (Inr req, w')"
  then have "populate_GenerationConfig E w' g = Inr (GenerationConfig req)"
    by (rule build_GenerationConfig)
  moreover from two have "populate_GenerationConfig E w' g =
      Inr (Some (empty_GenerationConfig\<lparr>Temperature := Some (Finite 0.7), TopK := Some 40\<rparr>))"
    by (intro populate_temperature_topK) simp_all
  ultimately show "GenerationConfig req =
      Some (empty_GenerationConfig\<lparr>Temperature := Some (Finite 0.7), TopK := Some 40\<rparr>)" by simp
next
  fix req w'
  assume "buildGenerateContentRequest E sys parts g t s w = (Inr req, w')"
  then have "populate_GenerationConfig E w' g = Inr (GenerationConfig req)"
    by (rule build_GenerationConfig)
  then have th: "(case GenerationConfig req of None \<Rightarrow> None | Some gc \<Rightarrow> ThinkingConfig gc) =
      populate_ThinkingConfig g"
    by (rule populate_thinking)
  show "(\<exists>gc. GenerationConfig req = Some gc \<and> ThinkingConfig gc \<noteq> None) \<longleftrightarrow>
      (in_ThinkingBudget g \<ge> 0 \<or> in_IncludeThoughts g)"
    using th unfolding populate_ThinkingConfig_fields
    by (cases "GenerationConfig req") (auto split: if_splits)
  assume "in_ThinkingBudget g \<ge> 0 \<or> in_IncludeThoughts g"
  then show "\<exists>gc. GenerationConfig req = Some gc \<and>
      ThinkingConfig gc =
        Some \<lparr>ThinkingBudget = (if in_ThinkingBudget g \<ge> 0 then Some (in_ThinkingBudget g) else None),
              IncludeThoughts = (if in_IncludeThoughts g then Some True else None)\<rparr>"
    using th unfolding populate_ThinkingConfig_fields
    by (cases "GenerationConfig req") (simp_all split: if_splits)
qed

theorem generation_block_witness:
  "(\<exists>req. buildGenerateContentRequest example_env ''Be brief.'' [] default_GenerationConfigInput
             default_ToolsInput [] empty_world = (Inr req, empty_world) \<and>
          GenerationConfig req = None)
   \<and> (\<exists>req. buildGenerateContentRequest example_env ''Be brief.'' []
             (default_GenerationConfigInput\<lparr>in_Temperature := Finite 0.7, in_TopK := 40\<rparr>)
             default_ToolsInput [] empty_world = (Inr req, empty_world) \<and>
          GenerationConfig req =
            Some (empty_GenerationConfig\<lparr>Temperature := Some (Finite 0.7), TopK := Some 40\<rparr>))
   \<and> (\<exists>req gc. buildGenerateContentRequest example_env ''Be brief.'' []
             (default_GenerationConfigInput\<lparr>in_ThinkingBudget := 1024\<rparr>)
             default_ToolsInput [] empty_world = (Inr req, empty_world) \<and>
          GenerationConfig req = Some gc \<and>
          ThinkingConfig gc = Some \<lparr>ThinkingBudget = Some 1024, IncludeThoughts = None\<rparr>)"
proof -
  let ?g1 = "default_GenerationConfigInput"
  let ?g2 = "default_GenerationConfigInput\<lparr>in_Temperature := Finite 0.7, in_TopK := 40\<rparr>"
  let ?g3 = "default_GenerationConfigInput\<lparr>in_ThinkingBudget := 1024\<rparr>"
  let ?b = "\<lambda>g. buildGenerateContentRequest example_env ''Be brief.'' [] g default_ToolsInput [] empty_world"
  have p1: "populate_GenerationConfig example_env empty_world ?g1 = Inr None"
    using generation_block [of ?g1 example_env empty_world]
    by (simp add: default_GenerationConfigInput_def negative_def)
  have p2: "populate_GenerationConfig example_env empty_world ?g2 =
      Inr (Some (empty_GenerationConfig\<lparr>Temperature := Some (Finite 0.7), TopK := Some 40\<rparr>))"
    using generation_block [of ?g2 example_env empty_world]
    by (simp add: default_GenerationConfigInput_def negative_def)
  obtain gc3 where p3: "populate_GenerationConfig example_env empty_world ?g3 = Inr gc3"
    by (cases "populate_GenerationConfig example_env empty_world ?g3")
      (auto simp: populate_GenerationConfig_def default_GenerationConfigInput_def
        split: prod.splits option.splits)
  note b1 = build_system_instruction_only [OF _ p1, of "''Be brief.''"]
  note b2 = build_system_instruction_only [OF _ p2, of "''Be brief.''"]
  note b3 = build_system_instruction_only [OF _ p3, of "''Be brief.''"]
  have c1: "\<exists>req. ?b ?g1 = (Inr req, empty_world) \<and> GenerationConfig req = None"
    using b1 by simp
  have c2: "\<exists>req. ?b ?g2 = (Inr req, empty_world) \<and> GenerationConfig req =
      Some (empty_GenerationConfig\<lparr>Temperature := Some (Finite 0.7), TopK := Some 40\<rparr>)"
    using b2 by simp
  have "\<exists>gc. gc3 = Some gc \<and>
      ThinkingConfig gc = Some \<lparr>ThinkingBudget = Some 1024, IncludeThoughts = None\<rparr>"
    using generation_block [of ?g3 example_env empty_world "''Be brief.''" "[]" default_ToolsInput "[]"] b3
    by (simp add: default_GenerationConfigInput_def)
  then have c3: "\<exists>req gc. ?b ?g3 = (Inr req, empty_world) \<and> GenerationConfig req = Some gc \<and>
      ThinkingConfig gc = Some \<lparr>ThinkingBudget = Some 1024, IncludeThoughts = None\<rparr>"
    using b3 by auto
  from c1 c2 c3 show ?thesis by blast
qed

lemma HasPrefix_prefix: "HasPrefix s pre \<longleftrightarrow> prefix pre s"
proof
  assume "HasPrefix s pre"
  then have "s = pre @ drop (length pre) s"
    by (metis HasPrefix_def append_take_drop_id)
  then show "prefix pre s" by (metis prefixI)
next
  assume "prefix pre s"
  then show "HasPrefix s pre" by (auto simp: HasPrefix_def prefix_def)
qed

lemma Contains_sublist: "Contains s substr \<longleftrightarrow> sublist substr s"
  by (induction s) (simp_all add: HasPrefix_prefix sublist_Cons_right)

lemma supportsGenContent_set: "supportsGenContent methods \<longleftrightarrow> ''generateContent'' \<in> set methods"
  by (induction methods) auto

lemma processedModels_map: "processedModels U models processed = processed @ map (processModel U) models"
  by (induction models arbitrary: processed) simp_all

lemma ToLower_Imagen_3: "ToLower U ''Imagen 3'' = ''imagen 3''"
  by (simp add: ToLower_def RuneSelf_def byte_def lower_byte_def char_of_eq_iff)

lemma ToLower_Gemini_Pro: "ToLower U ''Gemini 2.5 Pro'' = ''gemini 2.5 pro''"
  by (simp add: ToLower_def RuneSelf_def byte_def lower_byte_def char_of_eq_iff)

text \<open>
  C7. For every model descriptor of a list-models response: the classification is
  \<open>No\<close> when the supported generation methods do not contain \<open>generateContent\<close>;
  otherwise it is \<open>Yes\<close>, except that it is the specialized negative text when the
  lower-cased display name contains \<open>tts\<close> or \<open>embedding\<close>, or starts with \<open>imagen\<close>
  or \<open>veo\<close>. A descriptor that supports content generation and is named
  \<open>Imagen 3\<close> is classified as specialized, one named \<open>Gemini 2.5 Pro\<close> as \<open>Yes\<close>.
  The reshaped list carries this classification for each descriptor, in order.
\<close>

theorem text_output_classification:
  "(''generateContent'' \<notin> set (SupportedGenerationMethods m) \<longrightarrow> isTextSupported U m = ''No'')
   \<and> (''generateContent'' \<in> set (SupportedGenerationMethods m) \<longrightarrow>
        isTextSupported U m =
          (if sublist ''tts'' (ToLower U (DisplayName m)) \<or> sublist ''embedding'' (ToLower U (DisplayName m)) \<or>
              prefix ''imagen'' (ToLower U (DisplayName m)) \<or> prefix ''veo'' (ToLower U (DisplayName m))
           then specialized else ''Yes''))
   \<and> (''generateContent'' \<in> set (SupportedGenerationMethods m) \<and> DisplayName m = ''Imagen 3'' \<longrightarrow>
        isTextSupported U m = specialized)
   \<and> (''generateContent'' \<in> set (SupportedGenerationMethods m) \<and> DisplayName m = ''Gemini 2.5 Pro'' \<longrightarrow>
        isTextSupported U m = ''Yes'')
   \<and> map SupportedForTextOutput (processedModels U models []) = map (isTextSupported U) models"
proof (intro conjI impI)
  assume "''generateContent'' \<notin> set (SupportedGenerationMethods m)"
  then show "isTextSupported U m = ''No''"
    by (simp add: isTextSupported_def supportsGenContent_set)
next
  assume "''generateContent'' \<in> set (SupportedGenerationMethods m)"
  then show "isTextSupported U m =
      (if sublist ''tts'' (ToLower U (DisplayName m)) \<or> sublist ''embedding'' (ToLower U (DisplayName m)) \<or>
          prefix ''imagen'' (ToLower U (DisplayName m)) \<or> prefix ''veo'' (ToLower U (DisplayName m))
       then specialized else ''Yes'')"
    by (auto simp: isTextSupported_def supportsGenContent_set Let_def Contains_sublist HasPrefix_prefix
        specialized_def)
next
  assume "''generateContent'' \<in> set (SupportedGenerationMethods m) \<and> DisplayName m = ''Imagen 3''"
  then show "isTextSupported U m = specialized"
    by (simp add: isTextSupported_def supportsGenContent_set ToLower_Imagen_3 HasPrefix_def
        specialized_def)
next
  assume "''generateContent'' \<in> set (SupportedGenerationMethods m) \<and> DisplayName m = ''Gemini 2.5 Pro''"
  then show "isTextSupported U m = ''Yes''"
    by (simp add: isTextSupported_def supportsGenContent_set ToLower_Gemini_Pro HasPrefix_def)
next
  show "map SupportedForTextOutput (processedModels U models []) = map (isTextSupported U) models"
    by (simp add: processedModels_map processModel_def comp_def)
qed

theorem text_output_classification_witness:
  "isTextSupported example_unicode (example_model ''Gemini 2.5 Pro'' [''embedContent'']) = ''No''
   \<and> isTextSupported example_unicode (example_model ''Imagen 3'' [''predict'', ''generateContent''])
       = specialized
   \<and> isTextSupported example_unicode (example_model ''Gemini 2.5 Pro'' [''generateContent'', ''countTokens''])
       = ''Yes''"
proof -
  note no = text_output_classification
    [of "example_model ''Gemini 2.5 Pro'' [''embedContent'']" example_unicode, THEN conjunct1]
  note imagen = text_output_classification
    [of "example_model ''Imagen 3'' [''predict'', ''generateContent'']" example_unicode,
      THEN conjunct2, THEN conjunct2, THEN conjunct1]
  note gemini = text_output_classification
    [of "example_model ''Gemini 2.5 Pro'' [''generateContent'', ''countTokens'']" example_unicode,
      THEN conjunct2, THEN conjunct2, THEN conjunct2, THEN conjunct1]
  show ?thesis
    using no imagen gemini by (simp add: example_model_def)
qed

lemma makeAPIRequest_response:
  assumes "http_NewRequest E httpMethod (fullURL apiKey endpointURL) = None"
    and "client_Do E httpMethod (fullURL apiKey endpointURL) body = Inr resp"
  shows "makeAPIRequest E apiKey httpMethod endpointURL body target w =
     (let w1 = w\<lparr>http_calls := http_calls w @ [(httpMethod, fullURL apiKey endpointURL)]\<rparr> in
      case Body resp of
        Inl err \<Rightarrow> (Inl (''failed to read response body: '' @ err), w1)
      | Inr responseBody \<Rightarrow>
          if StatusCode resp \<noteq> 200 then (Inl (API_error resp responseBody), w1)
          else
            (case target of
               Some unmarshal \<Rightarrow>
                 (case unmarshal responseBody of
                    Inl err \<Rightarrow>
                      (Inl (''failed to unmarshal response into target: '' @ err @
                            ''. Raw response: '' @ responseBody), w1)
                  | Inr v \<Rightarrow> (Inr (Some v), w1))
             | None \<Rightarrow> (Inr None, Printf (responseBody @ LF) w1)))"
  using assms
  by (simp add: makeAPIRequest_def fullURL_def API_error_def Let_def split: sum.splits option.splits)

lemma API_error_contains:
  "sublist (Status resp) (API_error resp responseBody)" "sublist responseBody (API_error resp responseBody)"
  unfolding API_error_def
  by (metis sublist_appendI append.assoc) (metis sublist_append_leftI append.assoc)

text \<open>
  C8. For every HTTP response with a status outside 200..299 that \<open>makeAPIRequest\<close>
  receives: the call returns an error and prints nothing on standard output; when the
  body of the response could be read, the error message contains both the status of
  the response and the raw body; and \<open>handleListModels\<close> does not swallow the error:
  it exits with status 1 and the message is on standard error.
\<close>

theorem non_2xx_is_error:
  "http_NewRequest E httpMethod (fullURL apiKey endpointURL) = None \<and>
   client_Do E httpMethod (fullURL apiKey endpointURL) body = Inr resp \<and>
   \<not> (200 \<le> StatusCode resp \<and> StatusCode resp \<le> 299) \<longrightarrow>
     isl (fst (makeAPIRequest E apiKey httpMethod endpointURL body target w))
     \<and> stdout (snd (makeAPIRequest E apiKey httpMethod endpointURL body target w)) = stdout w
     \<and> (\<forall>responseBody. Body resp = Inr responseBody \<longrightarrow>
          (\<exists>msg. fst (makeAPIRequest E apiKey httpMethod endpointURL body target w) = Inl msg \<and>
             sublist (Status resp) msg \<and> sublist responseBody msg))
     \<and> (httpMethod = ''GET'' \<and> endpointURL = ''/models'' \<and> body = None \<longrightarrow>
          fst (handleListModels E apiKey w) = Exit 1 \<and>
          (\<forall>responseBody. Body resp = Inr responseBody \<longrightarrow>
             sublist (Status resp) (stderr (snd (handleListModels E apiKey w))) \<and>
             sublist responseBody (stderr (snd (handleListModels E apiKey w)))))"
proof (intro impI, elim conjE)
  assume req: "http_NewRequest E httpMethod (fullURL apiKey endpointURL) = None"
    and resp: "client_Do E httpMethod (fullURL apiKey endpointURL) body = Inr resp"
    and status: "\<not> (200 \<le> StatusCode resp \<and> StatusCode resp \<le> 299)"
  then have not200: "StatusCode resp \<noteq> 200" by auto
  note run = makeAPIRequest_response [OF req resp]
  have run': "makeAPIRequest E apiKey httpMethod endpointURL body target w =
      (case Body resp of
         Inl err \<Rightarrow> (Inl (''failed to read response body: '' @ err),
                     w\<lparr>http_calls := http_calls w @ [(httpMethod, fullURL apiKey endpointURL)]\<rparr>)
       | Inr responseBody \<Rightarrow> (Inl (API_error resp responseBody),
                     w\<lparr>http_calls := http_calls w @ [(httpMethod, fullURL apiKey endpointURL)]\<rparr>))"
    for target :: "(string \<Rightarrow> error + 'b) option"
    using run [of target] not200 by (simp add: Let_def split: sum.splits)
  show "isl (fst (makeAPIRequest E apiKey httpMethod endpointURL body target w))
     \<and> stdout (snd (makeAPIRequest E apiKey httpMethod endpointURL body target w)) = stdout w
     \<and> (\<forall>responseBody. Body resp = Inr responseBody \<longrightarrow>
          (\<exists>msg. fst (makeAPIRequest E apiKey httpMethod endpointURL body target w) = Inl msg \<and>
             sublist (Status resp) msg \<and> sublist responseBody msg))
     \<and> (httpMethod = ''GET'' \<and> endpointURL = ''/models'' \<and> body = None \<longrightarrow>
          fst (handleListModels E apiKey w) = Exit 1 \<and>
          (\<forall>responseBody. Body resp = Inr responseBody \<longrightarrow>
             sublist (Status resp) (stderr (snd (handleListModels E apiKey w))) \<and>
             sublist responseBody (stderr (snd (handleListModels E apiKey w)))))"
  proof (intro conjI allI impI)
    show "isl (fst (makeAPIRequest E apiKey httpMethod endpointURL body target w))"
      by (simp add: run' split: sum.splits)
    show "stdout (snd (makeAPIRequest E apiKey httpMethod endpointURL body target w)) = stdout w"
      by (simp add: run' split: sum.splits)
  next
    fix responseBody assume "Body resp = Inr responseBody"
    then show "\<exists>msg. fst (makeAPIRequest E apiKey httpMethod endpointURL body target w) = Inl msg \<and>
             sublist (Status resp) msg \<and> sublist responseBody msg"
      by (simp add: run' API_error_contains)
  next
    assume list: "httpMethod = ''GET'' \<and> endpointURL = ''/models'' \<and> body = None"
    show "fst (handleListModels E apiKey w) = Exit 1"
      using list run' [of "Some (json_Unmarshal_ListModelsResponse E)"]
      by (simp add: handleListModels_def split: sum.splits)
    fix responseBody assume body: "Body resp = Inr responseBody"
    have err: "stderr (snd (handleListModels E apiKey w)) =
        stderr w @ ''Error listing models: '' @ API_error resp responseBody @ LF"
      using list body run' [of "Some (json_Unmarshal_ListModelsResponse E)"]
      by (simp add: handleListModels_def Fprintf_Stderr_def)
    obtain p q where "API_error resp responseBody = p @ Status resp @ q"
      using API_error_contains(1) [of resp responseBody] by (auto simp: sublist_def)
    then have "stderr (snd (handleListModels E apiKey w)) =
        (stderr w @ ''Error listing models: '' @ p) @ Status resp @ (q @ LF)"
      by (simp add: err)
    then show "sublist (Status resp) (stderr (snd (handleListModels E apiKey w)))"
      by (metis sublist_appendI)
    obtain p' q' where "API_error resp responseBody = p' @ responseBody @ q'"
      using API_error_contains(2) [of responseBody resp] by (auto simp: sublist_def)
    then have "stderr (snd (handleListModels E apiKey w)) =
        (stderr w @ ''Error listing models: '' @ p') @ responseBody @ (q' @ LF)"
      by (simp add: err)
    then show "sublist responseBody (stderr (snd (handleListModels E apiKey w)))"
      by (metis sublist_appendI)
  qed
qed

theorem non_2xx_is_error_witness:
  "isl (fst (makeAPIRequest (example_env_answering (example_response 404 ''404 Not Found'' ''{}''))
          ''KEY'' ''GET'' ''/models'' None (None :: (string \<Rightarrow> error + unit) option) empty_world))
   \<and> (\<exists>msg. fst (makeAPIRequest (example_env_answering (example_response 404 ''404 Not Found'' ''{}''))
          ''KEY'' ''GET'' ''/models'' None (None :: (string \<Rightarrow> error + unit) option) empty_world) = Inl msg \<and>
        sublist ''404 Not Found'' msg \<and> sublist ''{}'' msg)
   \<and> fst (handleListModels (example_env_answering (example_response 404 ''404 Not Found'' ''{}''))
          ''KEY'' empty_world) = Exit 1"
  using non_2xx_is_error [where E = "example_env_answering (example_response 404 ''404 Not Found'' ''{}'')"
      and httpMethod = "''GET''" and apiKey = "''KEY''" and endpointURL = "''/models''" and body = None
      and resp = "example_response 404 ''404 Not Found'' ''{}''"
      and target = "None :: (string \<Rightarrow> error + unit) option" and w = empty_world]
  by (simp add: example_env_answering_def example_env_def example_response_def)

text \<open>
  C9. \<open>makeAPIRequest\<close> treats exactly status 200 as success. For every response whose
  body was read: when the status code differs from 200 -- 201 and 204 included -- the
  call returns the API error made of the status and the body, and neither decodes nor
  prints the body; when the status code is 200 the body is processed (decoded into
  the target, or printed when there is no target).
\<close>

theorem only_200_is_success:
  "http_NewRequest E httpMethod (fullURL apiKey endpointURL) = None \<and>
   client_Do E httpMethod (fullURL apiKey endpointURL) body = Inr resp \<and>
   Body resp = Inr responseBody \<longrightarrow>
     (StatusCode resp \<noteq> 200 \<longrightarrow>
        makeAPIRequest E apiKey httpMethod endpointURL body target w =
          (Inl (API_error resp responseBody),
           w\<lparr>http_calls := http_calls w @ [(httpMethod, fullURL apiKey endpointURL)]\<rparr>))
     \<and> (StatusCode resp = 200 \<longrightarrow>
        makeAPIRequest E apiKey httpMethod endpointURL body target w =
          (case target of
             Some unmarshal \<Rightarrow>
               (case unmarshal responseBody of
                  Inl err \<Rightarrow>
                    (Inl (''failed to unmarshal response into target: '' @ err @
                          ''. Raw response: '' @ responseBody),
                     w\<lparr>http_calls := http_calls w @ [(httpMethod, fullURL apiKey endpointURL)]\<rparr>)
                | Inr v \<Rightarrow>
                    (Inr (Some v), w\<lparr>http_calls := http_calls w @ [(httpMethod, fullURL apiKey endpointURL)]\<rparr>))
           | None \<Rightarrow>
               (Inr None,
                Printf (responseBody @ LF)
                  (w\<lparr>http_calls := http_calls w @ [(httpMethod, fullURL apiKey endpointURL)]\<rparr>))))"
proof (intro impI conjI; elim conjE)
  assume req: "http_NewRequest E httpMethod (fullURL apiKey endpointURL) = None"
    and resp: "client_Do E httpMethod (fullURL apiKey endpointURL) body = Inr resp"
    and body: "Body resp = Inr responseBody"
  note run = makeAPIRequest_response [OF req resp, of target w]
  {
    assume "StatusCode resp \<noteq> 200"
    then show "makeAPIRequest E apiKey httpMethod endpointURL body target w =
          (Inl (API_error resp responseBody),
           w\<lparr>http_calls := http_calls w @ [(httpMethod, fullURL apiKey endpointURL)]\<rparr>)"
      using run body by (simp add: Let_def)
  }
  {
    assume "StatusCode resp = 200"
    then show "makeAPIRequest E apiKey httpMethod endpointURL body target w =
          (case target of
             Some unmarshal \<Rightarrow>
               (case unmarshal responseBody of
                  Inl err \<Rightarrow>
                    (Inl (''failed to unmarshal response into target: '' @ err @
                          ''. Raw response: '' @ responseBody),
                     w\<lparr>http_calls := http_calls w @ [(httpMethod, fullURL apiKey endpointURL)]\<rparr>)
                | Inr v \<Rightarrow>
                    (Inr (Some v), w\<lparr>http_calls := http_calls w @ [(httpMethod, fullURL apiKey endpointURL)]\<rparr>))
           | None \<Rightarrow>
               (Inr None,
                Printf (responseBody @ LF)
                  (w\<lparr>http_calls := http_calls w @ [(httpMethod, fullURL apiKey endpointURL)]\<rparr>)))"
      using run body by (simp add: Let_def)
  }
qed

theorem only_200_is_success_witness:
  "fst (makeAPIRequest (example_env_answering (example_response 201 ''201 Created'' ''{}''))
          ''KEY'' ''POST'' ''/models/m:generateContent'' (Some ''{}'')
          (None :: (string \<Rightarrow> error + unit) option) empty_world)
     = Inl ''API error: 201 Created, Body: {}''
   \<and> fst (makeAPIRequest (example_env_answering (example_response 204 ''204 No Content'' []))
          ''KEY'' ''POST'' ''/models/m:generateContent'' (Some ''{}'')
          (None :: (string \<Rightarrow> error + unit) option) empty_world)
     = Inl ''API error: 204 No Content, Body: ''
   \<and> fst (makeAPIRequest (example_env_answering (example_response 200 ''200 OK'' ''{}''))
          ''KEY'' ''POST'' ''/models/m:generateContent'' (Some ''{}'')
          (None :: (string \<Rightarrow> error + unit) option) empty_world)
     = Inr None
   \<and> stdout (snd (makeAPIRequest (example_env_answering (example_response 200 ''200 OK'' ''{}''))
          ''KEY'' ''POST'' ''/models/m:generateContent'' (Some ''{}'')
          (None :: (string \<Rightarrow> error + unit) option) empty_world))
     = ''{}'' @ LF"
  using only_200_is_success [where E = "example_env_answering (example_response 201 ''201 Created'' ''{}'')"
      and httpMethod = "''POST''" and apiKey = "''KEY''" and endpointURL = "''/models/m:generateContent''"
      and body = "Some ''{}''" and resp = "example_response 201 ''201 Created'' ''{}''"
      and responseBody = "''{}''"
      and target = "None :: (string \<Rightarrow> error + unit) option" and w = empty_world]
    only_200_is_success [where E = "example_env_answering (example_response 204 ''204 No Content'' [])"
      and httpMethod = "''POST''" and apiKey = "''KEY''" and endpointURL = "''/models/m:generateContent''"
      and body = "Some ''{}''" and resp = "example_response 204 ''204 No Content'' []"
      and responseBody = "[]"
      and target = "None :: (string \<Rightarrow> error + unit) option" and w = empty_world]
    only_200_is_success [where E = "example_env_answering (example_response 200 ''200 OK'' ''{}'')"
      and httpMethod = "''POST''" and apiKey = "''KEY''" and endpointURL = "''/models/m:generateContent''"
      and body = "Some ''{}''" and resp = "example_response 200 ''200 OK'' ''{}''"
      and responseBody = "''{}''"
      and target = "None :: (string \<Rightarrow> error + unit) option" and w = empty_world]
  by (simp add: example_env_answering_def example_env_def example_response_def API_error_def
      Printf_def empty_world_def)

lemma loadAPIKey_cases:
  assumes "getConfigPath E = Inr configPath"
  shows "loadAPIKey E w =
     (if files w configPath = None
      then Inl (''config file not found at '' @ configPath @ ''. Run 'set-config --key YOUR_KEY' first'')
      else
        (case os_ReadFile E w configPath of
           Inl err \<Rightarrow> Inl (''failed to read config file '' @ configPath @ '': '' @ err)
         | Inr data \<Rightarrow>
             (case json_Unmarshal_Config E data of
                Inl err \<Rightarrow> Inl (''failed to unmarshal config from '' @ configPath @ '': '' @ err)
              | Inr config \<Rightarrow>
                  if APIKey config = []
                  then Inl (''API key not found in config file '' @ configPath @
                            ''. Run 'set-config --key YOUR_KEY'' @ squote)
                  else Inr (APIKey config))))"
  using assms by (simp add: loadAPIKey_def)

lemma loadAPIKey_Inr:
  assumes "loadAPIKey E w = Inr key"
  shows "key \<noteq> [] \<and>
     (\<exists>configPath data. getConfigPath E = Inr configPath \<and> files w configPath = Some data \<and>
        json_Unmarshal_Config E data = Inr \<lparr>APIKey = key\<rparr>)"
proof -
  from assms obtain configPath where path: "getConfigPath E = Inr configPath"
    by (cases "getConfigPath E") (simp_all add: loadAPIKey_def)
  from assms show ?thesis
    unfolding loadAPIKey_cases [OF path]
    by (auto simp: path os_ReadFile_def split: if_splits sum.splits option.splits)
qed

text \<open>
  C10. \<open>loadAPIKey\<close> never succeeds with an empty key. For every environment and every
  content of the file system it returns an error or a non-empty key: a missing file, a
  file that does not parse and a file whose key field is empty each give their own
  error, and a key is returned only when it is the non-empty key field of the parsed
  configuration file.
\<close>

theorem loadAPIKey_never_empty:
  "(isl (loadAPIKey E w) \<or> (\<exists>key. loadAPIKey E w = Inr key \<and> key \<noteq> []))
   \<and> loadAPIKey E w \<noteq> Inr []
   \<and> (getConfigPath E = Inr configPath \<and> files w configPath = None \<longrightarrow>
        loadAPIKey E w =
          Inl (''config file not found at '' @ configPath @ ''. Run 'set-config --key YOUR_KEY' first''))
   \<and> (getConfigPath E = Inr configPath \<and> files w configPath = Some data \<and>
      ReadFile_fault E configPath = None \<and> json_Unmarshal_Config E data = Inl err \<longrightarrow>
        loadAPIKey E w = Inl (''failed to unmarshal config from '' @ configPath @ '': '' @ err))
   \<and> (getConfigPath E = Inr configPath \<and> files w configPath = Some data \<and>
      ReadFile_fault E configPath = None \<and> json_Unmarshal_Config E data = Inr \<lparr>APIKey = []\<rparr> \<longrightarrow>
        loadAPIKey E w =
          Inl (''API key not found in config file '' @ configPath @
               ''. Run 'set-config --key YOUR_KEY'' @ squote))
   \<and> (getConfigPath E = Inr configPath \<and> files w configPath = Some data \<and>
      ReadFile_fault E configPath = None \<and> json_Unmarshal_Config E data = Inr \<lparr>APIKey = key\<rparr> \<and>
      key \<noteq> [] \<longrightarrow> loadAPIKey E w = Inr key)"
proof (intro conjI impI)
  show "isl (loadAPIKey E w) \<or> (\<exists>key. loadAPIKey E w = Inr key \<and> key \<noteq> [])"
    using loadAPIKey_Inr [of E w] by (cases "loadAPIKey E w") auto
  show "loadAPIKey E w \<noteq> Inr []"
    using loadAPIKey_Inr [of E w "[]"] by auto
qed (auto simp: loadAPIKey_cases os_ReadFile_def)

theorem loadAPIKey_never_empty_witness:
  "loadAPIKey example_env empty_world =
      Inl (''config file not found at /home/user/.config/gemini-cli/config.json'' @
           ''. Run 'set-config --key YOUR_KEY' first'')
   \<and> isl (loadAPIKey example_env
        (empty_world\<lparr>files := [''/home/user/.config/gemini-cli/config.json'' \<mapsto> ''not json'']\<rparr>))
   \<and> isl (loadAPIKey example_env
        (empty_world\<lparr>files := [''/home/user/.config/gemini-cli/config.json'' \<mapsto>
           ''{'' @ LF @ ''  \"api_key\": \"\"'' @ LF @ ''}'']\<rparr>))
   \<and> loadAPIKey example_env
        (empty_world\<lparr>files := [''/home/user/.config/gemini-cli/config.json'' \<mapsto>
           ''{'' @ LF @ ''  \"api_key\": \"k1\"'' @ LF @ ''}'']\<rparr>) = Inr ''k1''"
proof -
  let ?p = "''/home/user/.config/gemini-cli/config.json''"
  have path: "getConfigPath example_env = Inr ?p"
    by (simp add: getConfigPath_def example_env_def)
  have fault: "ReadFile_fault example_env ?p = None"
    by (simp add: example_env_def)
  have un: "json_Unmarshal_Config example_env = example_Unmarshal_Config"
    by (simp add: example_env_def)
  have d1: "example_Unmarshal_Config ''not json'' = Inl ''invalid character looking for beginning of value''"
    by (simp add: example_Unmarshal_Config_def HasPrefix_def LF_def)
  have d2: "example_Unmarshal_Config (''{'' @ LF @ ''  \"api_key\": \"\"'' @ LF @ ''}'') = Inr \<lparr>APIKey = []\<rparr>"
    by (simp add: example_Unmarshal_Config_def HasPrefix_def LF_def)
  have d3: "example_Unmarshal_Config (''{'' @ LF @ ''  \"api_key\": \"k1\"'' @ LF @ ''}'') = Inr \<lparr>APIKey = ''k1''\<rparr>"
    by (simp add: example_Unmarshal_Config_def HasPrefix_def LF_def)
  note t = loadAPIKey_never_empty [where E = example_env and configPath = ?p]
  have c1: "loadAPIKey example_env empty_world =
      Inl (''config file not found at /home/user/.config/gemini-cli/config.json'' @
           ''. Run 'set-config --key YOUR_KEY' first'')"
    using t [where w = empty_world] path by (simp add: empty_world_def)
  have c2: "isl (loadAPIKey example_env (empty_world\<lparr>files := [?p \<mapsto> ''not json'']\<rparr>))"
    using t [where w = "empty_world\<lparr>files := [?p \<mapsto> ''not json'']\<rparr>" and data = "''not json''"
        and err = "''invalid character looking for beginning of value''"] path fault un d1
    by simp
  have c3: "isl (loadAPIKey example_env
      (empty_world\<lparr>files := [?p \<mapsto> ''{'' @ LF @ ''  \"api_key\": \"\"'' @ LF @ ''}'']\<rparr>))"
    using t [where w = "empty_world\<lparr>files := [?p \<mapsto> ''{'' @ LF @ ''  \"api_key\": \"\"'' @ LF @ ''}'']\<rparr>"
        and data = "''{'' @ LF @ ''  \"api_key\": \"\"'' @ LF @ ''}''"] path fault un d2
    by simp
  have c4: "loadAPIKey example_env
      (empty_world\<lparr>files := [?p \<mapsto> ''{'' @ LF @ ''  \"api_key\": \"k1\"'' @ LF @ ''}'']\<rparr>) = Inr ''k1''"
    using t [where w = "empty_world\<lparr>files := [?p \<mapsto> ''{'' @ LF @ ''  \"api_key\": \"k1\"'' @ LF @ ''}'']\<rparr>"
        and data = "''{'' @ LF @ ''  \"api_key\": \"k1\"'' @ LF @ ''}''" and key = "''k1''"] path fault un d3
    by simp
  from c1 c2 c3 c4 show ?thesis by blast
qed









end
